theory Spec2Isabelle
  imports Main "HOL-Library.Sublist"
begin

section \<open>Constants and errors\<close>

text \<open>
  The development follows \<^verbatim>\<open>torch/distributed/fsdp/flatten_params_wrapper.py\<close>.
  Python exceptions are values of \<open>error\<close>: a failed \<^verbatim>\<open>assert\<close> with its message,
  an \<^verbatim>\<open>AttributeError\<close> with the type name of the object asked and the attribute name, a
  \<^verbatim>\<open>KeyError\<close> with the key that a dictionary lacks, and \<open>Raised\<close> for any other exception
  that code outside this file raises.
\<close>

definition FLAT_PARAM :: string where
  "FLAT_PARAM = ''flat_param''"

definition FPW_MODULE :: string where
  "FPW_MODULE = ''_fpw_module''"

datatype error =
    AssertionError string
  | AttributeError string string
  | KeyError string
  | Raised string

section \<open>Key remapping of persisted state\<close>

text \<open>
  A state dict is a Python \<^verbatim>\<open>dict\<close> from dotted key names to values. It is modelled as the
  list of its entries in iteration order, because \<^verbatim>\<open>_pre_load_state_dict_hook\<close> walks
  \<^verbatim>\<open>list(state_dict.keys())\<close> and rewrites the dictionary while it does so.
  \<open>startswith k p\<close> is \<^verbatim>\<open>k.startswith(p)\<close> and \<open>split_on sep s\<close> is \<^verbatim>\<open>s.split(sep)\<close>
  for a one-character separator (never the empty list), so that
  \<^verbatim>\<open>k.split(".")[-1]\<close> is \<open>last (split_on CHR ''.'' k)\<close>.
\<close>

type_synonym 'v state_dict = "(string \<times> 'v) list"

definition startswith :: "string \<Rightarrow> string \<Rightarrow> bool" where
  "startswith k p = prefix p k"

fun split_on :: "char \<Rightarrow> string \<Rightarrow> string list" where
  "split_on sep [] = [[]]"
| "split_on sep (c # cs) =
     (if c = sep then [] # split_on sep cs
      else (case split_on sep cs of
              [] \<Rightarrow> [[c]]
            | w # ws \<Rightarrow> (c # w) # ws))"

text \<open>
  Modelled from the spec: \<^verbatim>\<open>_replace_by_prefix\<close> of \<^verbatim>\<open>torch.distributed.utils\<close> is imported
  by the file and is not among the sources. The spec describes its two uses as ``every key
  beginning with \<open>P\<close> is rewritten to begin with \<open>P + "_fpw_module."\<close> instead'' and ``every
  key beginning with \<open>P + "_fpw_module."\<close> has that exact substring removed'': each key that
  begins with the old prefix gets the new prefix in its place, every entry keeps its value.
  The spec does not say what happens when two rewritten keys coincide; the model rewrites the
  entries one by one and keeps them all.
\<close>

definition replace_by_prefix :: "'v state_dict \<Rightarrow> string \<Rightarrow> string \<Rightarrow> 'v state_dict" where
  "replace_by_prefix state_dict old_prefix new_prefix =
     map (\<lambda>(key, v).
            (if startswith key old_prefix then new_prefix @ drop (length old_prefix) key else key, v))
         state_dict"

text \<open>
  \<^verbatim>\<open>_post_state_dict_hook(module, state_dict, prefix, *args)\<close>: one call of the helper; the
  module argument is not used.
\<close>

definition post_state_dict_hook :: "'m \<Rightarrow> 'v state_dict \<Rightarrow> string \<Rightarrow> 'v state_dict" where
  "post_state_dict_hook module state_dict pfx =
     replace_by_prefix state_dict (pfx @ FPW_MODULE @ ''.'') pfx"

text \<open>
  The loop of \<^verbatim>\<open>_pre_load_state_dict_hook\<close> over the keys listed before the loop starts.
  A key is tested by its name only, whether or not an earlier iteration has already moved it.
  The failed \<^verbatim>\<open>assert\<close> ends the loop; the dictionary stays as the iterations before it left it.
\<close>

fun move_flat_param_keys ::
  "string \<Rightarrow> string list \<Rightarrow> 'v state_dict \<Rightarrow> error option \<times> 'v state_dict" where
  "move_flat_param_keys pfx [] state_dict = (None, state_dict)"
| "move_flat_param_keys pfx (k # ks) state_dict =
     (if startswith k (pfx @ FPW_MODULE @ ''.'' @ FLAT_PARAM) then
        (let last_part = last (split_on CHR ''.'' k) in
         if \<not> startswith last_part FLAT_PARAM then
           (Some (AssertionError (''Expected key to contain flat_param, but key name is '' @ k)),
            state_dict)
         else move_flat_param_keys pfx ks (replace_by_prefix state_dict k (pfx @ last_part)))
      else move_flat_param_keys pfx ks state_dict)"

text \<open>
  \<^verbatim>\<open>_pre_load_state_dict_hook(state_dict, prefix, *args)\<close> changes the dictionary in place and
  returns nothing: the model returns the error raised, if any, and the dictionary as it is left.
\<close>

definition pre_load_state_dict_hook ::
  "'v state_dict \<Rightarrow> string \<Rightarrow> error option \<times> 'v state_dict" where
  "pre_load_state_dict_hook state_dict pfx =
     (let pushed = replace_by_prefix state_dict pfx (pfx @ FPW_MODULE @ ''.'')
      in move_flat_param_keys pfx (map fst pushed) pushed)"

section \<open>The aliasing handle\<close>

text \<open>
  Modelled from the spec: class \<^verbatim>\<open>FlatParamHandle\<close> of \<^verbatim>\<open>flat_param.py\<close> is imported by the
  file and is not among the sources. The spec lists what the wrapper consumes of it: the
  constructor, \<^verbatim>\<open>handle.flat_param\<close>, the read-only flag \<^verbatim>\<open>handle.use_orig_params\<close>, the
  scoped operation that installs the per-item views and retracts them on exit, and the
  operation that forces the aggregated representation (\<^verbatim>\<open>_use_unsharded_views(as_params)\<close>).
  The aggregated buffer is identified by the list of original parameters it stands for;
  \<open>h_views_as_params\<close> says whether per-item views are installed as parameters of the wrapped
  tree; \<open>h_use_unsharded_views_calls\<close> records the argument of every call of
  \<^verbatim>\<open>_use_unsharded_views\<close>, oldest first. Device and configuration are opaque.
\<close>

type_synonym param = nat

datatype flat_parameter = FlatParameter "param list"

type_synonym device = string

type_synonym handle_config = nat

record FlatParamHandle =
  h_flat_param :: flat_parameter
  h_use_orig_params :: bool
  h_views_as_params :: bool
  h_use_unsharded_views_calls :: "bool list"
  h_device :: device
  h_config :: handle_config

text \<open>
  Values that an attribute can hold: a handle, a boolean, \<^verbatim>\<open>None\<close>, a flat parameter, or any
  other object (by identity).
\<close>

datatype val =
    Handle FlatParamHandle
  | Bool bool
  | NoneV
  | FlatParam flat_parameter
  | Obj nat

text \<open>
  The wrapped child is any \<^verbatim>\<open>nn.Module\<close>: the model keeps its identity, the name of its type
  and the attributes that \<^verbatim>\<open>getattr\<close> finds on it.
\<close>

record nn_Module =
  m_id :: nat
  m_type :: string
  m_attrs :: "string \<rightharpoonup> val"

text \<open>
  Modelled from the spec: the constructor and the three operations of the absent class
  \<^verbatim>\<open>FlatParamHandle\<close>. A new handle has no per-item views installed.
\<close>

definition FlatParamHandle_init ::
  "param list \<Rightarrow> nn_Module \<Rightarrow> device \<Rightarrow> handle_config \<Rightarrow> bool \<Rightarrow> FlatParamHandle" where
  "FlatParamHandle_init params module device config use_orig_params =
     \<lparr>h_flat_param = FlatParameter params,
      h_use_orig_params = use_orig_params,
      h_views_as_params = False,
      h_use_unsharded_views_calls = [],
      h_device = device,
      h_config = config\<rparr>"

definition use_unsharded_views :: "bool \<Rightarrow> FlatParamHandle \<Rightarrow> FlatParamHandle" where
  "use_unsharded_views as_params h =
     h\<lparr>h_views_as_params := as_params,
       h_use_unsharded_views_calls := h_use_unsharded_views_calls h @ [as_params]\<rparr>"

definition handle_unflatten_enter :: "FlatParamHandle \<Rightarrow> FlatParamHandle" where
  "handle_unflatten_enter h = h\<lparr>h_views_as_params := True\<rparr>"

definition handle_unflatten_exit :: "FlatParamHandle \<Rightarrow> FlatParamHandle" where
  "handle_unflatten_exit h = h\<lparr>h_views_as_params := False\<rparr>"

section \<open>Values and the wrapped child\<close>

text \<open>
  Python is dynamically typed: reading \<^verbatim>\<open>.flat_param\<close> or \<^verbatim>\<open>._use_orig_params\<close> of a value
  that is not a handle raises \<^verbatim>\<open>AttributeError\<close>, and \<^verbatim>\<open>not v\<close> takes the truth value of
  \<open>v\<close> (an object other than \<^verbatim>\<open>False\<close> and \<^verbatim>\<open>None\<close> counts as true).
\<close>

fun type_name :: "val \<Rightarrow> string" where
  "type_name (Handle h) = ''FlatParamHandle''"
| "type_name (Bool b) = ''bool''"
| "type_name NoneV = ''NoneType''"
| "type_name (FlatParam p) = ''FlatParameter''"
| "type_name (Obj n) = ''object''"

fun truth :: "val \<Rightarrow> bool" where
  "truth (Bool b) = b"
| "truth NoneV = False"
| "truth v = True"

fun val_flat_param :: "val \<Rightarrow> error + val" where
  "val_flat_param (Handle h) = Inr (FlatParam (h_flat_param h))"
| "val_flat_param v = Inl (AttributeError (type_name v) ''flat_param'')"

fun val_use_orig_params :: "val \<Rightarrow> error + bool" where
  "val_use_orig_params (Handle h) = Inr (h_use_orig_params h)"
| "val_use_orig_params v = Inl (AttributeError (type_name v) ''_use_orig_params'')"

text \<open>\<^verbatim>\<open>getattr(module, name)\<close> on the wrapped child: its value, or the child's own error.\<close>

definition getattr_module :: "nn_Module \<Rightarrow> string \<Rightarrow> error + val" where
  "getattr_module m name =
     (case m_attrs m name of
        Some v \<Rightarrow> Inr v
      | None \<Rightarrow> Inl (AttributeError (m_type m) name))"

section \<open>The wrapper\<close>

text \<open>
  The state of a \<^verbatim>\<open>FlattenParamsWrapper\<close>: the wrapped child \<^verbatim>\<open>_fpw_module\<close>; the instance
  attributes \<^verbatim>\<open>_flat_param_handle\<close> and \<^verbatim>\<open>_use_orig_params\<close>, which \<^verbatim>\<open>__init__\<close> sets only
  for a non-empty parameter list (\<open>None\<close>: the attribute does not exist); the registry
  \<^verbatim>\<open>_parameters\<close> that \<^verbatim>\<open>nn.Module\<close> traversals read; and the two hook registries.
\<close>

datatype hook = PostStateDictHook | PreLoadStateDictHook

record FlattenParamsWrapper =
  fpw_module :: nn_Module
  flat_param_handle :: "FlatParamHandle option"
  use_orig_params :: "bool option"
  parameters :: "string \<rightharpoonup> val"
  state_dict_hooks :: "hook list"
  load_state_dict_pre_hooks :: "hook list"

text \<open>The property \<^verbatim>\<open>module\<close>.\<close>

definition module_property :: "FlattenParamsWrapper \<Rightarrow> nn_Module" where
  "module_property self = fpw_module self"

text \<open>
  Modelled from the spec: \<^verbatim>\<open>nn.Module.__getattr__\<close>, which \<^verbatim>\<open>super().__getattr__(name)\<close>
  calls, is not among the sources. It answers for the Wrapper's own fields, which are the
  entries of its parameter registry and its sole child \<^verbatim>\<open>_fpw_module\<close>, and raises the
  Wrapper's \<^verbatim>\<open>AttributeError\<close> for every other name.
\<close>

definition nn_Module_getattr :: "FlattenParamsWrapper \<Rightarrow> string \<Rightarrow> error + val" where
  "nn_Module_getattr self name =
     (case parameters self name of
        Some v \<Rightarrow> Inr v
      | None \<Rightarrow>
          if name = FPW_MODULE then Inr (Obj (m_id (fpw_module self)))
          else Inl (AttributeError ''FlattenParamsWrapper'' name))"

text \<open>
  \<^verbatim>\<open>FlattenParamsWrapper.__getattr__(self, name)\<close>: defer to \<^verbatim>\<open>nn.Module\<close>, and on
  \<^verbatim>\<open>AttributeError\<close> fall back to the wrapped module.
\<close>

definition getattr_fallback :: "FlattenParamsWrapper \<Rightarrow> string \<Rightarrow> error + val" where
  "getattr_fallback self name =
     (case nn_Module_getattr self name of
        Inl (AttributeError t n) \<Rightarrow> getattr_module (module_property self) name
      | r \<Rightarrow> r)"

text \<open>
  Reading \<^verbatim>\<open>self._flat_param_handle\<close> or \<^verbatim>\<open>self._use_orig_params\<close>: Python looks in the
  instance dictionary first and calls \<^verbatim>\<open>__getattr__\<close> when the name is not there.
  \<^verbatim>\<open>hasattr(self, name)\<close> is that same lookup, \<^verbatim>\<open>False\<close> when it raises
  \<^verbatim>\<open>AttributeError\<close> (the only error a lookup raises here).
\<close>

definition instance_dict :: "FlattenParamsWrapper \<Rightarrow> string \<rightharpoonup> val" where
  "instance_dict self name =
     (if name = ''_flat_param_handle'' then map_option Handle (flat_param_handle self)
      else if name = ''_use_orig_params'' then map_option Bool (use_orig_params self)
      else None)"

definition getattr_self :: "FlattenParamsWrapper \<Rightarrow> string \<Rightarrow> error + val" where
  "getattr_self self name =
     (case instance_dict self name of
        Some v \<Rightarrow> Inr v
      | None \<Rightarrow> getattr_fallback self name)"

definition hasattr_self :: "FlattenParamsWrapper \<Rightarrow> string \<Rightarrow> bool" where
  "hasattr_self self name = (case getattr_self self name of Inr v \<Rightarrow> True | Inl e \<Rightarrow> False)"

text \<open>
  The properties \<^verbatim>\<open>has_params\<close>, \<^verbatim>\<open>handle\<close> and \<^verbatim>\<open>flat_param\<close>. When the getter of a
  property raises \<^verbatim>\<open>AttributeError\<close>, Python goes on to call \<^verbatim>\<open>__getattr__\<close> with the name
  of the property. Of the three getters only that of \<^verbatim>\<open>flat_param\<close> can raise it (when the
  value found as the handle has no \<^verbatim>\<open>flat_param\<close>): \<^verbatim>\<open>has_params\<close> is a \<^verbatim>\<open>hasattr\<close>, and
  \<^verbatim>\<open>handle\<close> fails by its assertion or returns what the same lookup has just found.
  \<open>flat_param_getter\<close> is the body of the getter, \<open>flat_param\<close> what reading
  \<^verbatim>\<open>self.flat_param\<close> gives.
\<close>

definition has_params :: "FlattenParamsWrapper \<Rightarrow> bool" where
  "has_params self = hasattr_self self ''_flat_param_handle''"

definition handle :: "FlattenParamsWrapper \<Rightarrow> error + val" where
  "handle self =
     (if hasattr_self self ''_flat_param_handle'' then getattr_self self ''_flat_param_handle''
      else Inl (AssertionError
        (''Accessing the handle of a `FlattenParamsWrapper` that does not '' @
         ''manage any parameters'')))"

definition flat_param_getter :: "FlattenParamsWrapper \<Rightarrow> error + val" where
  "flat_param_getter self =
     (if has_params self then
        (case handle self of Inl e \<Rightarrow> Inl e | Inr h \<Rightarrow> val_flat_param h)
      else Inr NoneV)"

definition flat_param :: "FlattenParamsWrapper \<Rightarrow> error + val" where
  "flat_param self =
     (case flat_param_getter self of
        Inl (AttributeError t n) \<Rightarrow> getattr_fallback self ''flat_param''
      | r \<Rightarrow> r)"

text \<open>
  \<^verbatim>\<open>dict.pop(key[, default])\<close>: the value under the key and the dictionary without it; when
  the key is absent, the default and the dictionary as it is, or \<^verbatim>\<open>KeyError\<close> when no default
  is given (\<open>None\<close> for the optional argument).
\<close>

definition dict_pop ::
  "string \<Rightarrow> val option \<Rightarrow> (string \<rightharpoonup> val) \<Rightarrow> error + val \<times> (string \<rightharpoonup> val)" where
  "dict_pop key dflt d =
     (case d key of
        Some v \<Rightarrow> Inr (v, d(key := None))
      | None \<Rightarrow>
          (case dflt of
             Some v \<Rightarrow> Inr (v, d)
           | None \<Rightarrow> Inl (KeyError key)))"

text \<open>
  \<^verbatim>\<open>_register_flat_param\<close> stores \<^verbatim>\<open>self.flat_param\<close> under the key \<^verbatim>\<open>"flat_param"\<close>;
  \<^verbatim>\<open>_deregister_flat_param\<close> is \<^verbatim>\<open>self._parameters.pop("flat_param", None)\<close>, the popped value
  dropped.
\<close>

definition register_flat_param :: "FlattenParamsWrapper \<Rightarrow> error + FlattenParamsWrapper" where
  "register_flat_param self =
     (case flat_param self of
        Inl e \<Rightarrow> Inl e
      | Inr v \<Rightarrow> Inr (self\<lparr>parameters := (parameters self)(''flat_param'' \<mapsto> v)\<rparr>))"

definition deregister_flat_param :: "FlattenParamsWrapper \<Rightarrow> error + FlattenParamsWrapper" where
  "deregister_flat_param self =
     (case dict_pop ''flat_param'' (Some NoneV) (parameters self) of
        Inl e \<Rightarrow> Inl e
      | Inr (popped, d) \<Rightarrow> Inr (self\<lparr>parameters := d\<rparr>))"

text \<open>
  A call \<^verbatim>\<open>self._flat_param_handle.method(...)\<close> looks the attribute up and changes the handle
  object that it finds. \<open>store_handle\<close> writes the changed handle back to the place the lookup
  found it: the instance attribute, else the registry, else the wrapped child.
\<close>

definition store_handle :: "FlatParamHandle \<Rightarrow> FlattenParamsWrapper \<Rightarrow> FlattenParamsWrapper" where
  "store_handle h self =
     (if flat_param_handle self \<noteq> None then self\<lparr>flat_param_handle := Some h\<rparr>
      else if parameters self ''_flat_param_handle'' \<noteq> None then
        self\<lparr>parameters := (parameters self)(''_flat_param_handle'' \<mapsto> Handle h)\<rparr>
      else
        self\<lparr>fpw_module := (fpw_module self)
          \<lparr>m_attrs := (m_attrs (fpw_module self))(''_flat_param_handle'' \<mapsto> Handle h)\<rparr>\<rparr>)"

definition handle_call ::
  "string \<Rightarrow> (FlatParamHandle \<Rightarrow> FlatParamHandle) \<Rightarrow> FlattenParamsWrapper
     \<Rightarrow> error + FlattenParamsWrapper" where
  "handle_call method f self =
     (case getattr_self self ''_flat_param_handle'' of
        Inl e \<Rightarrow> Inl e
      | Inr (Handle h) \<Rightarrow> Inr (store_handle (f h) self)
      | Inr v \<Rightarrow> Inl (AttributeError (type_name v) method))"

text \<open>
  The context manager \<^verbatim>\<open>unflatten_as_params\<close>, for a wrapper whose \<^verbatim>\<open>flat_param\<close> is not
  \<^verbatim>\<open>None\<close>, in three parts. \<open>unflatten_enter\<close> is the code before the \<^verbatim>\<open>yield\<close>: de-register
  (outside the \<^verbatim>\<open>try\<close>), then enter the handle's own context (inside it).
  \<open>unflatten_exit\<close> is the code after it: the handle's context exits (it does not swallow
  an exception), then the \<^verbatim>\<open>finally\<close> clause runs.
  \<open>unflatten_finally\<close> is that clause; an error raised in it replaces the one in flight.
  The caller's block is a function from the state it is entered in to the error it raises,
  if any, and the state it leaves.
\<close>

definition unflatten_enter :: "FlattenParamsWrapper \<Rightarrow> error + FlattenParamsWrapper" where
  "unflatten_enter self =
     (case deregister_flat_param self of
        Inl e \<Rightarrow> Inl e
      | Inr deregistered \<Rightarrow>
          handle_call ''unflatten_as_params'' handle_unflatten_enter deregistered)"

definition unflatten_finally ::
  "error option \<Rightarrow> FlattenParamsWrapper \<Rightarrow> error option \<times> FlattenParamsWrapper" where
  "unflatten_finally raised self =
     (case handle self of
        Inl e \<Rightarrow> (Some e, self)
      | Inr h \<Rightarrow>
          (case val_use_orig_params h of
             Inl e \<Rightarrow> (Some e, self)
           | Inr uop \<Rightarrow>
               if \<not> uop then
                 (case register_flat_param self of
                    Inl e \<Rightarrow> (Some e, self)
                  | Inr self' \<Rightarrow> (raised, self'))
               else (raised, self)))"

definition unflatten_exit ::
  "error option \<Rightarrow> FlattenParamsWrapper \<Rightarrow> error option \<times> FlattenParamsWrapper" where
  "unflatten_exit raised self =
     unflatten_finally raised
       (case handle_call ''unflatten_as_params'' handle_unflatten_exit self of
          Inl e \<Rightarrow> self
        | Inr self' \<Rightarrow> self')"

definition unflatten_as_params ::
  "(FlattenParamsWrapper \<Rightarrow> error option \<times> FlattenParamsWrapper) \<Rightarrow> FlattenParamsWrapper
     \<Rightarrow> error option \<times> FlattenParamsWrapper" where
  "unflatten_as_params body self =
     (case flat_param self of
        Inl e \<Rightarrow> (Some e, self)
      | Inr NoneV \<Rightarrow> body self
      | Inr v \<Rightarrow>
          (case deregister_flat_param self of
             Inl e \<Rightarrow> (Some e, self)
           | Inr deregistered \<Rightarrow>
               (case handle_call ''unflatten_as_params'' handle_unflatten_enter deregistered of
                  Inl e \<Rightarrow> unflatten_finally (Some e) deregistered
                | Inr entered \<Rightarrow>
                    (case body entered of (raised, left) \<Rightarrow> unflatten_exit raised left))))"

text \<open>
  \<^verbatim>\<open>forward(*inputs, **kwinputs)\<close>. The call of the wrapped module is code outside this file:
  \<open>module_call\<close> stands for it, a function of the state it runs in and of the arguments.
\<close>

definition forward ::
  "(FlattenParamsWrapper \<Rightarrow> val list \<Rightarrow> (string \<times> val) list \<Rightarrow> (error + val) \<times> FlattenParamsWrapper)
     \<Rightarrow> FlattenParamsWrapper \<Rightarrow> val list \<Rightarrow> (string \<times> val) list
     \<Rightarrow> (error + val) \<times> FlattenParamsWrapper" where
  "forward module_call self inputs kwinputs =
     (case flat_param self of
        Inl e \<Rightarrow> (Inl e, self)
      | Inr NoneV \<Rightarrow> module_call self inputs kwinputs
      | Inr v \<Rightarrow>
          (case getattr_self self ''_use_orig_params'' of
             Inl e \<Rightarrow> (Inl e, self)
           | Inr uop \<Rightarrow>
               if \<not> truth uop then
                 (case handle_call ''_use_unsharded_views'' (use_unsharded_views False) self of
                    Inl e \<Rightarrow> (Inl e, self)
                  | Inr self' \<Rightarrow> module_call self' inputs kwinputs)
               else module_call self inputs kwinputs))"

text \<open>
  \<^verbatim>\<open>__init__(module, params, device, config, use_orig_params)\<close>. The first closing assertion
  compares \<^verbatim>\<open>_fpw_module\<close> with itself; the second compares \<^verbatim>\<open>self.flat_param\<close> with itself
  and so can only fail by the property raising.
\<close>

definition FlattenParamsWrapper_init ::
  "nn_Module \<Rightarrow> param list \<Rightarrow> device \<Rightarrow> handle_config \<Rightarrow> bool \<Rightarrow> error + FlattenParamsWrapper" where
  "FlattenParamsWrapper_init module params device config uop =
     (let self = \<lparr>fpw_module = module, flat_param_handle = None, use_orig_params = None,
                  parameters = Map.empty, state_dict_hooks = [PostStateDictHook],
                  load_state_dict_pre_hooks = [PreLoadStateDictHook]\<rparr>
      in if length params = 0 then Inr self
         else
           (let self = self\<lparr>flat_param_handle :=
                          Some (FlatParamHandle_init params module device config uop)\<rparr>
            in case (if \<not> uop then register_flat_param self else Inr self) of
                 Inl e \<Rightarrow> Inl e
               | Inr self \<Rightarrow>
                   (let self = self\<lparr>use_orig_params := Some uop\<rparr>
                    in case flat_param self of
                         Inl e \<Rightarrow> Inl e
                       | Inr v \<Rightarrow> Inr self)))"

section \<open>Facts about splitting and prefix replacement\<close>

lemma split_on_not_Nil: "split_on sep s \<noteq> []"
  by (induction s) (auto split: list.splits)

lemma split_on_no_sep: "sep \<notin> set s \<Longrightarrow> split_on sep s = [s]"
  by (induction s) auto

lemma last_split_on_Cons_other:
  "c \<noteq> sep \<Longrightarrow> sep \<in> set s \<Longrightarrow> last (split_on sep (c # s)) = last (split_on sep s)"
  by (induction s) (auto split: list.splits simp: split_on_not_Nil)

text \<open>The last segment only depends on what follows the last separator.\<close>

lemma last_split_on_append_sep:
  "last (split_on sep (xs @ sep # ys)) = last (split_on sep ys)"
proof (induction xs)
  case Nil
  show ?case by (simp add: split_on_not_Nil)
next
  case (Cons x xs)
  show ?case
  proof (cases "x = sep")
    case True
    with Cons show ?thesis by (simp add: split_on_not_Nil)
  next
    case False
    have "sep \<in> set (xs @ sep # ys)" by simp
    with False Cons show ?thesis
      using last_split_on_Cons_other [of x sep "xs @ sep # ys"] by simp
  qed
qed

lemma split_on_append_no_sep:
  "sep \<notin> set t \<Longrightarrow>
     split_on sep (xs @ t) = butlast (split_on sep xs) @ [last (split_on sep xs) @ t]"
proof (induction xs)
  case Nil
  then show ?case by (simp add: split_on_no_sep)
next
  case (Cons x xs)
  then show ?case
    by (cases "split_on sep xs") (auto simp: split_on_not_Nil)
qed

lemma last_split_on_append_no_sep:
  "sep \<notin> set t \<Longrightarrow> last (split_on sep (xs @ t)) = last (split_on sep xs) @ t"
  by (simp add: split_on_append_no_sep)

lemma replace_by_prefix_length [simp]:
  "length (replace_by_prefix sd a b) = length sd"
  by (simp add: replace_by_prefix_def)

lemma replace_by_prefix_values [simp]:
  "map snd (replace_by_prefix sd a b) = map snd sd"
  by (simp add: replace_by_prefix_def case_prod_unfold)

lemma replace_by_prefix_nth:
  "i < length sd \<Longrightarrow>
     replace_by_prefix sd a b ! i =
       (if prefix a (fst (sd ! i)) then b @ drop (length a) (fst (sd ! i)) else fst (sd ! i),
        snd (sd ! i))"
  by (simp add: replace_by_prefix_def startswith_def case_prod_unfold)

lemma replace_by_prefix_keys:
  "map fst (replace_by_prefix sd a b) =
     map (\<lambda>k. if prefix a k then b @ drop (length a) k else k) (map fst sd)"
  by (simp add: replace_by_prefix_def startswith_def case_prod_unfold)

section \<open>Facts about the loop that moves the flat-parameter keys\<close>

lemma move_flat_param_keys_length:
  "move_flat_param_keys P ks sd = (r, sd') \<Longrightarrow> length sd' = length sd"
  by (induction ks arbitrary: sd) (auto simp: Let_def split: if_splits)

lemma move_flat_param_keys_values:
  "move_flat_param_keys P ks sd = (r, sd') \<Longrightarrow> map snd sd' = map snd sd"
  by (induction ks arbitrary: sd) (auto simp: Let_def split: if_splits)

text \<open>An entry whose key does not begin with the flat-parameter prefix is never touched.\<close>

lemma move_flat_param_keys_fixed:
  "move_flat_param_keys P ks sd = (r, sd') \<Longrightarrow> i < length sd \<Longrightarrow>
     \<not> prefix (P @ FPW_MODULE @ ''.'' @ FLAT_PARAM) (fst (sd ! i)) \<Longrightarrow> sd' ! i = sd ! i"
proof (induction ks arbitrary: sd)
  case Nil
  then show ?case by simp
next
  case (Cons j ks)
  show ?case
  proof (cases "startswith j (P @ FPW_MODULE @ ''.'' @ FLAT_PARAM)
                  \<and> startswith (last (split_on CHR ''.'' j)) FLAT_PARAM")
    case True
    let ?sd1 = "replace_by_prefix sd j (P @ last (split_on CHR ''.'' j))"
    from True Cons.prems(1) have run: "move_flat_param_keys P ks ?sd1 = (r, sd')"
      by (simp add: Let_def)
    from True Cons.prems(3) have "\<not> prefix j (fst (sd ! i))"
      by (auto simp: startswith_def dest: prefix_order.trans)
    with Cons.prems(2) have same: "?sd1 ! i = sd ! i"
      by (simp add: replace_by_prefix_nth)
    with Cons.IH [OF run] Cons.prems(2,3) show ?thesis by simp
  next
    case False
    with Cons show ?thesis by (auto simp: Let_def split: if_splits)
  qed
qed

text \<open>A key that was moved up no longer begins with the flat-parameter prefix.\<close>

lemma moved_key_not_matched:
  "prefix FLAT_PARAM x \<Longrightarrow> \<not> prefix (P @ FPW_MODULE @ ''.'' @ FLAT_PARAM) (P @ x @ t)"
  by (auto simp: FLAT_PARAM_def FPW_MODULE_def prefix_def)

text \<open>
  The entry at position \<open>i\<close>, with a key \<open>k\<close> that begins with the flat-parameter prefix and is
  among the keys walked, ends under \<open>P\<close> followed by the last segment of \<open>k\<close>, provided that
  every walked key which is a prefix of \<open>k\<close> ends inside the last segment of \<open>k\<close>.
\<close>

lemma move_flat_param_keys_moved:
  "move_flat_param_keys P ks sd = (None, sd') \<Longrightarrow> i < length sd \<Longrightarrow> fst (sd ! i) = k \<Longrightarrow>
   \<forall>j\<in>set ks. prefix (P @ FPW_MODULE @ ''.'' @ FLAT_PARAM) j \<and> prefix j k
       \<longrightarrow> CHR ''.'' \<notin> set (drop (length j) k) \<Longrightarrow>
   prefix (P @ FPW_MODULE @ ''.'' @ FLAT_PARAM) k \<Longrightarrow> k \<in> set ks \<Longrightarrow>
     fst (sd' ! i) = P @ last (split_on CHR ''.'' k)"
proof (induction ks arbitrary: sd)
  case Nil
  then show ?case by simp
next
  case (Cons j ks)
  show ?case
  proof (cases "prefix (P @ FPW_MODULE @ ''.'' @ FLAT_PARAM) j")
    case False
    with Cons.prems(1) have run: "move_flat_param_keys P ks sd = (None, sd')"
      by (simp add: startswith_def)
    from False Cons.prems(5) have "k \<noteq> j" by auto
    with Cons.IH [OF run Cons.prems(2,3)] Cons.prems(4,5,6) show ?thesis by simp
  next
    case True
    let ?l = "last (split_on CHR ''.'' j)"
    let ?sd1 = "replace_by_prefix sd j (P @ ?l)"
    from True Cons.prems(1) have ok: "prefix FLAT_PARAM ?l"
      by (auto simp: startswith_def Let_def split: if_splits)
    with True Cons.prems(1) have run: "move_flat_param_keys P ks ?sd1 = (None, sd')"
      by (simp add: startswith_def Let_def)
    show ?thesis
    proof (cases "prefix j k")
      case False
      then have "k \<noteq> j" by auto
      from False Cons.prems(2,3) have "fst (?sd1 ! i) = k"
        by (simp add: replace_by_prefix_nth)
      with Cons.IH [OF run] Cons.prems(2,4,5,6) \<open>k \<noteq> j\<close> show ?thesis by simp
    next
      case pre: True
      then obtain t where k: "k = j @ t" by (auto simp: prefix_def)
      from pre True Cons.prems(4) have nodot: "CHR ''.'' \<notin> set t"
        using k by auto
      then have lastk: "last (split_on CHR ''.'' k) = ?l @ t"
        using k by (simp add: last_split_on_append_no_sep)
      from pre Cons.prems(2,3) have new: "fst (?sd1 ! i) = P @ ?l @ t"
        using k by (simp add: replace_by_prefix_nth)
      from ok have "\<not> prefix (P @ FPW_MODULE @ ''.'' @ FLAT_PARAM) (fst (?sd1 ! i))"
        unfolding new by (rule moved_key_not_matched)
      with move_flat_param_keys_fixed [OF run, of i] Cons.prems(2)
      have "sd' ! i = ?sd1 ! i" by simp
      with new lastk show ?thesis by simp
    qed
  qed
qed

text \<open>The first walked key that fails the assertion is the one reported.\<close>

lemma move_flat_param_keys_error:
  "k \<in> set ks \<Longrightarrow> prefix (P @ FPW_MODULE @ ''.'' @ FLAT_PARAM) k \<Longrightarrow>
   \<not> prefix FLAT_PARAM (last (split_on CHR ''.'' k)) \<Longrightarrow>
   \<exists>k'. k' \<in> set ks \<and> prefix (P @ FPW_MODULE @ ''.'' @ FLAT_PARAM) k' \<and>
        \<not> prefix FLAT_PARAM (last (split_on CHR ''.'' k')) \<and>
        fst (move_flat_param_keys P ks sd) =
          Some (AssertionError (''Expected key to contain flat_param, but key name is '' @ k'))"
proof (induction ks arbitrary: sd)
  case Nil
  then show ?case by simp
next
  case (Cons j ks)
  show ?case
  proof (cases "prefix (P @ FPW_MODULE @ ''.'' @ FLAT_PARAM) j
                  \<and> \<not> prefix FLAT_PARAM (last (split_on CHR ''.'' j))")
    case True
    then show ?thesis by (auto simp: startswith_def Let_def)
  next
    case False
    with Cons.prems have "k \<in> set ks" by auto
    from Cons.IH [OF this Cons.prems(2,3)] False show ?thesis
      by (auto simp: startswith_def Let_def)
  qed
qed

section \<open>The export path\<close>

text \<open>
  C3. The export-path remapper \<^verbatim>\<open>_post_state_dict_hook\<close>, given a state dict and a prefix
  \<open>P\<close>, turns every key \<open>P + "_fpw_module." + rest\<close> into \<open>P + rest\<close> and leaves every key
  that does not begin with \<open>P + "_fpw_module."\<close> as it is; every entry keeps its value and
  its place.
\<close>

theorem post_state_dict_hook_strips_fpw_module:
  "list_all2
     (\<lambda>(k, v) (k', v').
        v' = v \<and>
        (\<forall>rest. k = P @ ''_fpw_module.'' @ rest \<longrightarrow> k' = P @ rest) \<and>
        (\<not> prefix (P @ ''_fpw_module.'') k \<longrightarrow> k' = k))
     sd (post_state_dict_hook m sd P)"
  unfolding post_state_dict_hook_def replace_by_prefix_def list_all2_map2
  by (rule list_all2_refl) (auto simp: startswith_def FPW_MODULE_def)

theorem post_state_dict_hook_strips_fpw_module_witness:
  "post_state_dict_hook () [(''a.b._fpw_module.weight'', 1::nat), (''a.b.flat_param'', 2)] ''a.b.''
     = [(''a.b.weight'', 1), (''a.b.flat_param'', 2)]"
  using post_state_dict_hook_strips_fpw_module
    [of "''a.b.''" "[(''a.b._fpw_module.weight'', 1::nat), (''a.b.flat_param'', 2)]" "()"]
  by (simp add: post_state_dict_hook_def replace_by_prefix_def startswith_def FPW_MODULE_def)

section \<open>The import path\<close>

text \<open>
  C7. During import, a key that after the generic rewrite begins with
  \<open>P + "_fpw_module.flat_param"\<close> and whose last dotted segment does not begin with
  \<open>flat_param\<close> makes the hook raise: the result is the assertion error that names such a
  key (the first one in the order of the keys), so no such key is passed over silently.
\<close>

theorem pre_load_state_dict_hook_format_error:
  assumes "k \<in> set (map fst (replace_by_prefix sd P (P @ ''_fpw_module.'')))"
    and "prefix (P @ ''_fpw_module.flat_param'') k"
    and "\<not> prefix ''flat_param'' (last (split_on CHR ''.'' k))"
  shows "\<exists>k'. k' \<in> set (map fst (replace_by_prefix sd P (P @ ''_fpw_module.''))) \<and>
              prefix (P @ ''_fpw_module.flat_param'') k' \<and>
              \<not> prefix ''flat_param'' (last (split_on CHR ''.'' k')) \<and>
              fst (pre_load_state_dict_hook sd P) =
                Some (AssertionError
                  (''Expected key to contain flat_param, but key name is '' @ k'))"
  using move_flat_param_keys_error [of k "map fst (replace_by_prefix sd P (P @ ''_fpw_module.''))" P
      "replace_by_prefix sd P (P @ ''_fpw_module.'')"] assms
  by (simp add: pre_load_state_dict_hook_def Let_def FPW_MODULE_def FLAT_PARAM_def)

theorem pre_load_state_dict_hook_format_error_witness:
  "''a.b._fpw_module.flat_param.x'' \<in>
     set (map fst (replace_by_prefix [(''a.b.flat_param.x'', 1::nat)] ''a.b.''
                     (''a.b.'' @ ''_fpw_module.''))) \<and>
   fst (pre_load_state_dict_hook [(''a.b.flat_param.x'', 1::nat)] ''a.b.'') =
     Some (AssertionError
       (''Expected key to contain flat_param, but key name is '' @
        ''a.b._fpw_module.flat_param.x''))"
proof -
  have mem: "''a.b._fpw_module.flat_param.x'' \<in>
     set (map fst (replace_by_prefix [(''a.b.flat_param.x'', 1::nat)] ''a.b.''
                     (''a.b.'' @ ''_fpw_module.'')))"
    by (simp add: replace_by_prefix_def startswith_def)
  have pre: "prefix (''a.b.'' @ ''_fpw_module.flat_param'') ''a.b._fpw_module.flat_param.x''"
    by simp
  have bad: "\<not> prefix ''flat_param'' (last (split_on CHR ''.'' ''a.b._fpw_module.flat_param.x''))"
    by simp
  from pre_load_state_dict_hook_format_error [OF mem pre bad] mem show ?thesis
    by (auto simp: replace_by_prefix_def startswith_def)
qed

text \<open>
  C2, as amended. When the hook raises no error, every entry keeps its value and its place,
  and its key \<open>k\<close> ends as follows. A key that does not begin with \<open>P\<close> is unchanged. A key
  \<open>P + rest\<close> where \<open>rest\<close> does not begin with \<open>flat_param\<close> ends as
  \<open>P + "_fpw_module." + rest\<close>, whatever its last segment is. A key \<open>P + rest\<close> where \<open>rest\<close>
  begins with \<open>flat_param\<close> ends as \<open>P\<close> followed by the last dotted segment of \<open>rest\<close>,
  provided that no key \<open>P + r\<close> of the mapping with \<open>r\<close> beginning with \<open>flat_param\<close> is a
  prefix of it that ends before its last segment (always so when \<open>rest\<close> has no dot).
\<close>

theorem pre_load_state_dict_hook_remaps:
  assumes run: "pre_load_state_dict_hook sd P = (None, sd')"
    and i: "i < length sd" and entry: "sd ! i = (k, v)"
  shows "length sd' = length sd \<and> snd (sd' ! i) = v \<and>
         (\<not> prefix P k \<longrightarrow> fst (sd' ! i) = k) \<and>
         (\<forall>rest. k = P @ rest \<and> \<not> prefix ''flat_param'' rest
            \<longrightarrow> fst (sd' ! i) = P @ ''_fpw_module.'' @ rest) \<and>
         (\<forall>rest. k = P @ rest \<and> prefix ''flat_param'' rest \<and>
            (\<forall>r. P @ r \<in> set (map fst sd) \<and> prefix ''flat_param'' r \<and> prefix r rest
               \<longrightarrow> CHR ''.'' \<notin> set (drop (length r) rest))
            \<longrightarrow> fst (sd' ! i) = P @ last (split_on CHR ''.'' rest))"
proof -
  let ?F = "P @ FPW_MODULE @ ''.'' @ FLAT_PARAM"
  let ?pushed = "replace_by_prefix sd P (P @ FPW_MODULE @ ''.'')"
  from run have loop: "move_flat_param_keys P (map fst ?pushed) ?pushed = (None, sd')"
    by (simp add: pre_load_state_dict_hook_def Let_def)
  have len: "length sd' = length sd"
    using move_flat_param_keys_length [OF loop] by simp
  have "map snd sd' = map snd sd"
    using move_flat_param_keys_values [OF loop] by simp
  then have "map snd sd' ! i = map snd sd ! i" by simp
  with i len entry have val: "snd (sd' ! i) = v" by simp
  have pushed_i:
    "?pushed ! i = (if prefix P k then P @ FPW_MODULE @ ''.'' @ drop (length P) k else k, v)"
    using i entry by (simp add: replace_by_prefix_nth)
  have other: "fst (sd' ! i) = k" if "\<not> prefix P k"
  proof -
    from that have "\<not> prefix ?F k"
      by (auto dest: append_prefixD)
    with that pushed_i have "\<not> prefix ?F (fst (?pushed ! i))" by simp
    with move_flat_param_keys_fixed [OF loop, of i] i have "sd' ! i = ?pushed ! i" by simp
    with that pushed_i show ?thesis by simp
  qed
  have down: "fst (sd' ! i) = P @ ''_fpw_module.'' @ rest"
    if "k = P @ rest" "\<not> prefix ''flat_param'' rest" for rest
  proof -
    from that pushed_i have p: "fst (?pushed ! i) = P @ FPW_MODULE @ ''.'' @ rest" by simp
    from that(2) have "\<not> prefix ?F (fst (?pushed ! i))"
      unfolding p by (simp add: FLAT_PARAM_def)
    with move_flat_param_keys_fixed [OF loop, of i] i have "sd' ! i = ?pushed ! i" by simp
    with p show ?thesis by (simp add: FPW_MODULE_def)
  qed
  have up: "fst (sd' ! i) = P @ last (split_on CHR ''.'' rest)"
    if k: "k = P @ rest" and fp: "prefix ''flat_param'' rest"
      and nosplit: "\<forall>r. P @ r \<in> set (map fst sd) \<and> prefix ''flat_param'' r \<and> prefix r rest
               \<longrightarrow> CHR ''.'' \<notin> set (drop (length r) rest)" for rest
  proof -
    let ?k = "P @ FPW_MODULE @ ''.'' @ rest"
    from k pushed_i have p: "fst (?pushed ! i) = ?k" by simp
    have mem: "?k \<in> set (map fst ?pushed)"
      using i p nth_mem [of i "map fst ?pushed"] by simp
    have match: "prefix ?F ?k" using fp by (simp add: FLAT_PARAM_def)
    have cond: "\<forall>j\<in>set (map fst ?pushed). prefix ?F j \<and> prefix j ?k
                   \<longrightarrow> CHR ''.'' \<notin> set (drop (length j) ?k)"
    proof (intro ballI impI)
      fix j assume j: "j \<in> set (map fst ?pushed)" and m: "prefix ?F j \<and> prefix j ?k"
      from j have "j \<in> (\<lambda>k0. if prefix P k0 then (P @ FPW_MODULE @ ''.'') @ drop (length P) k0
                           else k0) ` set (map fst sd)"
        unfolding replace_by_prefix_keys by (simp only: set_map)
      then obtain k0 where k0: "k0 \<in> set (map fst sd)"
        and jk: "j = (if prefix P k0 then (P @ FPW_MODULE @ ''.'') @ drop (length P) k0 else k0)"
        by blast
      have pk0: "prefix P k0"
      proof (rule ccontr)
        assume "\<not> prefix P k0"
        with jk m show False by (auto dest: append_prefixD)
      qed
      then obtain r where r: "k0 = P @ r" by (auto simp: prefix_def)
      with jk pk0 have j': "j = P @ FPW_MODULE @ ''.'' @ r" by simp
      from m have "prefix ''flat_param'' r" "prefix r rest"
        unfolding j' by (simp_all add: FLAT_PARAM_def)
      with nosplit k0 r have "CHR ''.'' \<notin> set (drop (length r) rest)" by blast
      then show "CHR ''.'' \<notin> set (drop (length j) ?k)"
        unfolding j' by simp
    qed
    have "fst (sd' ! i) = P @ last (split_on CHR ''.'' ?k)"
      using move_flat_param_keys_moved [OF loop _ p cond match mem] i by simp
    moreover have "last (split_on CHR ''.'' ?k) = last (split_on CHR ''.'' rest)"
      using last_split_on_append_sep [of "CHR ''.''" "P @ FPW_MODULE" rest] by simp
    ultimately show ?thesis by simp
  qed
  from len val other down up show ?thesis by blast
qed

text \<open>
  The example of the claim: with prefix \<open>a.b.\<close>, the key \<open>a.b.flat_param_0\<close> ends where it was
  and \<open>a.b.other\<close> ends as \<open>a.b._fpw_module.other\<close>; a key outside the prefix stays.
\<close>

theorem pre_load_state_dict_hook_remaps_witness:
  "pre_load_state_dict_hook
     [(''a.b.flat_param_0'', 1::nat), (''a.b.other'', 2), (''c.x'', 3)] ''a.b.'' =
     (None, [(''a.b.flat_param_0'', 1), (''a.b._fpw_module.other'', 2), (''c.x'', 3)]) \<and>
   fst ([(''a.b.flat_param_0'', 1::nat), (''a.b._fpw_module.other'', 2), (''c.x'', 3)] ! 0) =
     ''a.b.'' @ last (split_on CHR ''.'' ''flat_param_0'')"
proof -
  let ?sd = "[(''a.b.flat_param_0'', 1::nat), (''a.b.other'', 2), (''c.x'', 3)]"
  let ?sd' = "[(''a.b.flat_param_0'', 1::nat), (''a.b._fpw_module.other'', 2), (''c.x'', 3)]"
  have run: "pre_load_state_dict_hook ?sd ''a.b.'' = (None, ?sd')"
    by (simp add: pre_load_state_dict_hook_def replace_by_prefix_def startswith_def
        FPW_MODULE_def FLAT_PARAM_def)
  have i: "0 < length ?sd" by simp
  have entry: "?sd ! 0 = (''a.b.flat_param_0'', 1)" by simp
  have nodot: "CHR ''.'' \<notin> set (drop n ''flat_param_0'')" for n
    by (auto dest: in_set_dropD)
  from pre_load_state_dict_hook_remaps [OF run i entry]
  have "\<forall>rest. ''a.b.flat_param_0'' = ''a.b.'' @ rest \<and> prefix ''flat_param'' rest \<and>
            (\<forall>r. ''a.b.'' @ r \<in> set (map fst ?sd) \<and> prefix ''flat_param'' r \<and> prefix r rest
               \<longrightarrow> CHR ''.'' \<notin> set (drop (length r) rest))
            \<longrightarrow> fst (?sd' ! 0) = ''a.b.'' @ last (split_on CHR ''.'' rest)"
    by blast
  then have "fst (?sd' ! 0) = ''a.b.'' @ last (split_on CHR ''.'' ''flat_param_0'')"
    using nodot by (elim allE [where x = "''flat_param_0''"]) simp
  with run show ?thesis by simp
qed

text \<open>
  The claim as first stated moves every key whose last dotted segment begins with
  \<open>flat_param\<close>. With prefix \<open>a.b.\<close> the key \<open>a.b.sub.flat_param_0\<close> (the flat parameter of a
  wrapper nested in the child) is pushed down with the rest and stays there: it does not begin
  with \<open>a.b._fpw_module.flat_param\<close>, so the loop passes it over.
\<close>

theorem pre_load_state_dict_hook_nested_key_counterexample:
  "pre_load_state_dict_hook [(''a.b.sub.flat_param_0'', 0::nat)] ''a.b.'' =
     (None, [(''a.b._fpw_module.sub.flat_param_0'', 0)]) \<and>
   prefix ''flat_param'' (last (split_on CHR ''.'' ''a.b._fpw_module.sub.flat_param_0'')) \<and>
   ''a.b._fpw_module.sub.flat_param_0'' \<noteq>
     ''a.b.'' @ last (split_on CHR ''.'' ''a.b._fpw_module.sub.flat_param_0'')"
  by (simp add: pre_load_state_dict_hook_def replace_by_prefix_def startswith_def
      FPW_MODULE_def FLAT_PARAM_def)

section \<open>A wrapper that owns its handle\<close>

text \<open>
  When the instance attribute \<^verbatim>\<open>_flat_param_handle\<close> exists every lookup of it stops in the
  instance dictionary, and the operations have closed forms.
\<close>

lemma own_getattr_handle:
  "flat_param_handle s = Some h \<Longrightarrow> getattr_self s ''_flat_param_handle'' = Inr (Handle h)"
  by (simp add: getattr_self_def instance_dict_def)

lemma own_getattr_use_orig_params:
  "use_orig_params s = Some b \<Longrightarrow> getattr_self s ''_use_orig_params'' = Inr (Bool b)"
  by (simp add: getattr_self_def instance_dict_def)

lemma own_has_params: "flat_param_handle s = Some h \<Longrightarrow> has_params s"
  by (simp add: has_params_def hasattr_self_def own_getattr_handle)

lemma own_handle: "flat_param_handle s = Some h \<Longrightarrow> handle s = Inr (Handle h)"
  by (simp add: handle_def hasattr_self_def own_getattr_handle)

lemma own_flat_param:
  "flat_param_handle s = Some h \<Longrightarrow> flat_param s = Inr (FlatParam (h_flat_param h))"
  by (simp add: flat_param_def flat_param_getter_def own_has_params own_handle)

lemma own_handle_call:
  "flat_param_handle s = Some h \<Longrightarrow>
     handle_call name f s = Inr (s\<lparr>flat_param_handle := Some (f h)\<rparr>)"
  by (simp add: handle_call_def own_getattr_handle store_handle_def)

lemma own_register_flat_param:
  "flat_param_handle s = Some h \<Longrightarrow>
     register_flat_param s =
       Inr (s\<lparr>parameters := (parameters s)(''flat_param'' \<mapsto> FlatParam (h_flat_param h))\<rparr>)"
  by (simp add: register_flat_param_def own_flat_param)

text \<open>Popping with a default never raises: de-registration always returns.\<close>

lemma deregister_flat_param_eq:
  "deregister_flat_param s = Inr (s\<lparr>parameters := (parameters s)(''flat_param'' := None)\<rparr>)"
proof (cases "parameters s ''flat_param''")
  case None
  then have "(parameters s)(''flat_param'' := None) = parameters s"
    by (rule fun_upd_idem)
  with None show ?thesis
    by (simp add: deregister_flat_param_def dict_pop_def)
next
  case (Some v)
  then show ?thesis
    by (simp add: deregister_flat_param_def dict_pop_def)
qed

lemma unflatten_enter_eq:
  "unflatten_enter s =
     handle_call ''unflatten_as_params'' handle_unflatten_enter
       (s\<lparr>parameters := (parameters s)(''flat_param'' := None)\<rparr>)"
  by (simp add: unflatten_enter_def deregister_flat_param_eq)

lemma own_unflatten_enter:
  "flat_param_handle s = Some h \<Longrightarrow>
     unflatten_enter s =
       Inr (s\<lparr>parameters := (parameters s)(''flat_param'' := None),
              flat_param_handle := Some (handle_unflatten_enter h)\<rparr>)"
  by (simp add: unflatten_enter_eq own_handle_call)

lemma own_unflatten_exit:
  "flat_param_handle s = Some h \<Longrightarrow>
     unflatten_exit raised s =
       (raised,
        if h_use_orig_params h then s\<lparr>flat_param_handle := Some (handle_unflatten_exit h)\<rparr>
        else s\<lparr>flat_param_handle := Some (handle_unflatten_exit h),
               parameters := (parameters s)(''flat_param'' \<mapsto> FlatParam (h_flat_param h))\<rparr>)"
  by (simp add: unflatten_exit_def unflatten_finally_def own_handle_call own_handle
      own_register_flat_param handle_unflatten_exit_def)

lemma own_unflatten_as_params:
  "flat_param_handle s = Some h \<Longrightarrow>
     unflatten_as_params body s =
       (case body (s\<lparr>parameters := (parameters s)(''flat_param'' := None),
                     flat_param_handle := Some (handle_unflatten_enter h)\<rparr>) of
          (raised, left) \<Rightarrow> unflatten_exit raised left)"
  by (simp add: unflatten_as_params_def own_flat_param deregister_flat_param_eq own_handle_call)

text \<open>The only error a lookup on the wrapper raises is \<^verbatim>\<open>AttributeError\<close>.\<close>

lemma getattr_self_error:
  "getattr_self s name = Inl e \<Longrightarrow> \<exists>t n. e = AttributeError t n"
  by (auto simp: getattr_self_def getattr_fallback_def nn_Module_getattr_def getattr_module_def
      split: option.splits if_splits)

lemma handle_call_error:
  "handle_call method f s = Inl e \<Longrightarrow> \<exists>t n. e = AttributeError t n"
  by (auto simp: handle_call_def dest: getattr_self_error split: sum.splits val.splits)

text \<open>Construction never fails, and this is the wrapper it builds.\<close>

lemma FlattenParamsWrapper_init_eq:
  "FlattenParamsWrapper_init module params device config uop =
     Inr \<lparr>fpw_module = module,
          flat_param_handle =
            (if params = [] then None
             else Some (FlatParamHandle_init params module device config uop)),
          use_orig_params = (if params = [] then None else Some uop),
          parameters =
            (if params = [] \<or> uop then Map.empty
             else [''flat_param'' \<mapsto> FlatParam (FlatParameter params)]),
          state_dict_hooks = [PostStateDictHook],
          load_state_dict_pre_hooks = [PreLoadStateDictHook]\<rparr>"
  by (simp add: FlattenParamsWrapper_init_def Let_def own_register_flat_param own_flat_param
      FlatParamHandle_init_def)

text \<open>
  Built from an empty list around a child that has no attribute \<^verbatim>\<open>_flat_param_handle\<close>, the
  wrapper has no parameters, no flat parameter and no handle.
\<close>

lemma empty_params_without_child_handle:
  assumes "m_attrs module ''_flat_param_handle'' = None"
    and "FlattenParamsWrapper_init module [] device config uop = Inr w"
  shows "\<not> has_params w \<and> flat_param w = Inr NoneV \<and>
         handle w = Inl (AssertionError
           (''Accessing the handle of a `FlattenParamsWrapper` that does not '' @
            ''manage any parameters''))"
proof -
  from assms(2) have w: "flat_param_handle w = None" "parameters w = Map.empty"
      "fpw_module w = module"
    by (auto simp: FlattenParamsWrapper_init_eq)
  with assms(1) have "getattr_self w ''_flat_param_handle'' =
      Inl (AttributeError (m_type module) ''_flat_param_handle'')"
    by (simp add: getattr_self_def instance_dict_def getattr_fallback_def nn_Module_getattr_def
        getattr_module_def module_property_def FPW_MODULE_def)
  then show ?thesis
    by (simp add: has_params_def flat_param_def flat_param_getter_def handle_def hasattr_self_def)
qed

section \<open>A wrapper whose handle attribute is a handle\<close>

text \<open>
  \<open>handle s = Inr (Handle h)\<close>: the wrapper has parameters and the attribute
  \<^verbatim>\<open>_flat_param_handle\<close> that it finds, on itself or through the fallback, is a handle. The
  operations then have closed forms, wherever the handle lives.
\<close>

lemma handle_unflatten_enter_fields [simp]:
  "h_use_orig_params (handle_unflatten_enter h) = h_use_orig_params h"
  "h_flat_param (handle_unflatten_enter h) = h_flat_param h"
  "h_views_as_params (handle_unflatten_enter h)"
  by (simp_all add: handle_unflatten_enter_def)

lemma handle_unflatten_exit_fields [simp]:
  "h_use_orig_params (handle_unflatten_exit h) = h_use_orig_params h"
  "h_flat_param (handle_unflatten_exit h) = h_flat_param h"
  "\<not> h_views_as_params (handle_unflatten_exit h)"
  by (simp_all add: handle_unflatten_exit_def)

lemma handle_iff: "handle s = Inr v \<longleftrightarrow> getattr_self s ''_flat_param_handle'' = Inr v"
  by (cases "getattr_self s ''_flat_param_handle''") (auto simp: handle_def hasattr_self_def)

lemma found_cases:
  "handle s = Inr (Handle h) \<longleftrightarrow>
     flat_param_handle s = Some h \<or>
     flat_param_handle s = None \<and> parameters s ''_flat_param_handle'' = Some (Handle h) \<or>
     flat_param_handle s = None \<and> parameters s ''_flat_param_handle'' = None \<and>
       m_attrs (fpw_module s) ''_flat_param_handle'' = Some (Handle h)"
  unfolding handle_iff
  by (auto simp: getattr_self_def instance_dict_def getattr_fallback_def nn_Module_getattr_def
      getattr_module_def module_property_def FPW_MODULE_def split: option.splits)

lemma found_has_params: "handle s = Inr (Handle h) \<Longrightarrow> has_params s"
  by (simp add: handle_iff has_params_def hasattr_self_def)

lemma found_flat_param:
  "handle s = Inr (Handle h) \<Longrightarrow> flat_param s = Inr (FlatParam (h_flat_param h))"
  by (simp add: flat_param_def flat_param_getter_def found_has_params)

lemma found_handle_call:
  "handle s = Inr (Handle h) \<Longrightarrow> handle_call method f s = Inr (store_handle (f h) s)"
  by (simp add: handle_iff handle_call_def)

lemma found_store_handle:
  "handle s = Inr (Handle h) \<Longrightarrow> handle (store_handle h' s) = Inr (Handle h')"
  unfolding found_cases by (auto simp: store_handle_def)

lemma handle_slot_update:
  "handle (s\<lparr>parameters := (parameters s)(''flat_param'' := x)\<rparr>) = Inr (Handle h) \<longleftrightarrow>
     handle s = Inr (Handle h)"
  unfolding found_cases by simp

lemma store_handle_slot:
  "parameters (store_handle h' s) ''flat_param'' = parameters s ''flat_param''"
  by (simp add: store_handle_def)

lemma found_register_flat_param:
  "handle s = Inr (Handle h) \<Longrightarrow>
     register_flat_param s =
       Inr (s\<lparr>parameters := (parameters s)(''flat_param'' \<mapsto> FlatParam (h_flat_param h))\<rparr>)"
  by (simp add: register_flat_param_def found_flat_param)

lemma found_unflatten_enter:
  "handle s = Inr (Handle h) \<Longrightarrow>
     unflatten_enter s =
       Inr (store_handle (handle_unflatten_enter h)
              (s\<lparr>parameters := (parameters s)(''flat_param'' := None)\<rparr>))"
  by (simp add: unflatten_enter_eq found_handle_call handle_slot_update)

lemma found_unflatten_exit:
  assumes "handle s = Inr (Handle h)" and "\<not> h_use_orig_params h"
  shows "unflatten_exit raised s =
       (raised,
        (store_handle (handle_unflatten_exit h) s)
          \<lparr>parameters := (parameters (store_handle (handle_unflatten_exit h) s))
             (''flat_param'' \<mapsto> FlatParam (h_flat_param h))\<rparr>)"
proof -
  let ?l = "store_handle (handle_unflatten_exit h) s"
  have l: "handle ?l = Inr (Handle (handle_unflatten_exit h))"
    using assms(1) by (rule found_store_handle)
  with assms(2) show ?thesis
    by (simp add: unflatten_exit_def unflatten_finally_def found_handle_call [OF assms(1)]
        found_register_flat_param [OF l])
qed

lemma found_unflatten_as_params:
  "handle s = Inr (Handle h) \<Longrightarrow>
     unflatten_as_params body s =
       (case body (store_handle (handle_unflatten_enter h)
                     (s\<lparr>parameters := (parameters s)(''flat_param'' := None)\<rparr>)) of
          (raised, left) \<Rightarrow> unflatten_exit raised left)"
  by (simp add: unflatten_as_params_def found_flat_param deregister_flat_param_eq
      found_handle_call handle_slot_update)

section \<open>The scoped toggle\<close>

text \<open>
  C1, as amended. Take a wrapper that has parameters, whose handle has \<^verbatim>\<open>use_orig_params\<close>
  false, in any state, whatever its registry holds. Entering the scope succeeds, and for
  every block that raises an error \<open>e\<close> and leaves the wrapper its handle, the scope exits
  with that same error, the slot \<open>flat_param\<close> is registered and holds the aggregated
  buffer, and no per-item view is left installed. So the registration state after the scope
  is the one before entry exactly when the slot was so registered before entry.
\<close>

theorem unflatten_as_params_exception_safe:
  assumes found: "handle s = Inr (Handle h)" and flag: "\<not> h_use_orig_params h"
  shows "has_params s \<and>
         (\<exists>entered. unflatten_enter s = Inr entered \<and>
            (\<forall>body e left h'.
               body entered = (Some e, left) \<and> handle left = Inr (Handle h') \<and>
               \<not> h_use_orig_params h' \<and> h_flat_param h' = h_flat_param h \<longrightarrow>
               (\<exists>s'. unflatten_as_params body s = (Some e, s') \<and>
                     parameters s' ''flat_param'' = Some (FlatParam (h_flat_param h)) \<and>
                     (parameters s ''flat_param'' = Some (FlatParam (h_flat_param h)) \<longrightarrow>
                        parameters s' ''flat_param'' = parameters s ''flat_param'') \<and>
                     (parameters s ''flat_param'' \<noteq> Some (FlatParam (h_flat_param h)) \<longrightarrow>
                        parameters s' ''flat_param'' \<noteq> parameters s ''flat_param'') \<and>
                     (\<exists>h''. handle s' = Inr (Handle h'') \<and> \<not> h_views_as_params h''))))"
proof -
  let ?e = "store_handle (handle_unflatten_enter h)
              (s\<lparr>parameters := (parameters s)(''flat_param'' := None)\<rparr>)"
  have enter: "unflatten_enter s = Inr ?e" by (rule found_unflatten_enter [OF found])
  have "\<exists>s'. unflatten_as_params body s = (Some e, s') \<and>
             parameters s' ''flat_param'' = Some (FlatParam (h_flat_param h)) \<and>
             (parameters s ''flat_param'' = Some (FlatParam (h_flat_param h)) \<longrightarrow>
                parameters s' ''flat_param'' = parameters s ''flat_param'') \<and>
             (parameters s ''flat_param'' \<noteq> Some (FlatParam (h_flat_param h)) \<longrightarrow>
                parameters s' ''flat_param'' \<noteq> parameters s ''flat_param'') \<and>
             (\<exists>h''. handle s' = Inr (Handle h'') \<and> \<not> h_views_as_params h'')"
    if b: "body ?e = (Some e, left)" and h': "handle left = Inr (Handle h')"
      "\<not> h_use_orig_params h'" "h_flat_param h' = h_flat_param h" for body e left h'
  proof -
    let ?l = "store_handle (handle_unflatten_exit h') left"
    let ?s' = "?l\<lparr>parameters := (parameters ?l)(''flat_param'' \<mapsto> FlatParam (h_flat_param h'))\<rparr>"
    have run: "unflatten_as_params body s = (Some e, ?s')"
      using b by (simp add: found_unflatten_as_params [OF found] found_unflatten_exit [OF h'(1,2)])
    have "handle ?l = Inr (Handle (handle_unflatten_exit h'))"
      using h'(1) by (rule found_store_handle)
    then have "handle ?s' = Inr (Handle (handle_unflatten_exit h'))"
      by (simp only: handle_slot_update)
    moreover have "\<not> h_views_as_params (handle_unflatten_exit h')"
      by simp
    ultimately show ?thesis using run h'(3) by auto
  qed
  with enter found_has_params [OF found] show ?thesis by blast
qed

theorem unflatten_as_params_exception_safe_witness:
  "\<exists>w s'. FlattenParamsWrapper_init \<lparr>m_id = 0, m_type = ''Linear'', m_attrs = Map.empty\<rparr>
             [1, 2] ''cpu'' 0 False = Inr w \<and>
          has_params w \<and>
          unflatten_as_params (\<lambda>x. (Some (Raised ''boom''), x)) w = (Some (Raised ''boom''), s') \<and>
          parameters s' ''flat_param'' = Some (FlatParam (FlatParameter [1, 2])) \<and>
          parameters s' ''flat_param'' = parameters w ''flat_param'' \<and>
          (\<exists>h. handle s' = Inr (Handle h) \<and> \<not> h_views_as_params h)"
proof -
  have "\<exists>w. FlattenParamsWrapper_init \<lparr>m_id = 0, m_type = ''Linear'', m_attrs = Map.empty\<rparr>
             [1, 2] ''cpu'' 0 False = Inr w"
    by (simp add: FlattenParamsWrapper_init_eq)
  then obtain w where init:
    "FlattenParamsWrapper_init \<lparr>m_id = 0, m_type = ''Linear'', m_attrs = Map.empty\<rparr>
       [1, 2] ''cpu'' 0 False = Inr w" ..
  then obtain h where own: "flat_param_handle w = Some h" and flag: "\<not> h_use_orig_params h"
    and fp: "h_flat_param h = FlatParameter [1, 2]"
    and reg: "parameters w ''flat_param'' = Some (FlatParam (FlatParameter [1, 2]))"
    by (auto simp: FlattenParamsWrapper_init_eq FlatParamHandle_init_def)
  have found: "handle w = Inr (Handle h)" by (rule own_handle [OF own])
  from unflatten_as_params_exception_safe [OF found flag]
  obtain entered where hp: "has_params w" and enter: "unflatten_enter w = Inr entered"
    and every: "\<forall>body e left h'.
       body entered = (Some e, left) \<and> handle left = Inr (Handle h') \<and>
       \<not> h_use_orig_params h' \<and> h_flat_param h' = h_flat_param h \<longrightarrow>
       (\<exists>s'. unflatten_as_params body w = (Some e, s') \<and>
             parameters s' ''flat_param'' = Some (FlatParam (h_flat_param h)) \<and>
             (parameters w ''flat_param'' = Some (FlatParam (h_flat_param h)) \<longrightarrow>
                parameters s' ''flat_param'' = parameters w ''flat_param'') \<and>
             (parameters w ''flat_param'' \<noteq> Some (FlatParam (h_flat_param h)) \<longrightarrow>
                parameters s' ''flat_param'' \<noteq> parameters w ''flat_param'') \<and>
             (\<exists>h''. handle s' = Inr (Handle h'') \<and> \<not> h_views_as_params h''))"
    by blast
  from enter own have "flat_param_handle entered = Some (handle_unflatten_enter h)"
    by (auto simp: own_unflatten_enter)
  then have left: "handle entered = Inr (Handle (handle_unflatten_enter h))"
    by (rule own_handle)
  have "(\<lambda>x. (Some (Raised ''boom''), x)) entered = (Some (Raised ''boom''), entered) \<and>
        handle entered = Inr (Handle (handle_unflatten_enter h)) \<and>
        \<not> h_use_orig_params (handle_unflatten_enter h) \<and>
        h_flat_param (handle_unflatten_enter h) = h_flat_param h"
    using left flag by simp
  with every obtain s' where
    "unflatten_as_params (\<lambda>x. (Some (Raised ''boom''), x)) w = (Some (Raised ''boom''), s')"
    "parameters s' ''flat_param'' = Some (FlatParam (h_flat_param h))"
    "\<exists>h''. handle s' = Inr (Handle h'') \<and> \<not> h_views_as_params h''"
    by blast
  with init hp fp reg show ?thesis by auto
qed

text \<open>
  The claim as first stated has the registration state after the scope equal to the state
  before entry. The \<^verbatim>\<open>finally\<close> clause registers the slot whatever it was: a wrapper
  constructed over the parameters \<open>1\<close> and \<open>2\<close> with \<^verbatim>\<open>use_orig_params=False\<close> and then
  de-registered has parameters, has no slot registered before the scope, and has one after
  a block that raises.
\<close>

theorem unflatten_as_params_registers_unregistered_slot_counterexample:
  "(case FlattenParamsWrapper_init \<lparr>m_id = 0, m_type = ''Linear'', m_attrs = Map.empty\<rparr>
           [1, 2] ''cpu'' 0 False of
      Inl e \<Rightarrow> False
    | Inr w \<Rightarrow>
        (case deregister_flat_param w of
           Inl e \<Rightarrow> False
         | Inr s \<Rightarrow>
             has_params s \<and>
             getattr_self s ''_use_orig_params'' = Inr (Bool False) \<and>
             parameters s ''flat_param'' = None \<and>
             fst (unflatten_as_params (\<lambda>x. (Some (Raised ''boom''), x)) s) =
               Some (Raised ''boom'') \<and>
             parameters (snd (unflatten_as_params (\<lambda>x. (Some (Raised ''boom''), x)) s))
               ''flat_param'' = Some (FlatParam (FlatParameter [1, 2]))))"
  by (simp add: FlattenParamsWrapper_init_eq deregister_flat_param_eq own_has_params
      own_getattr_use_orig_params own_unflatten_as_params own_unflatten_exit
      FlatParamHandle_init_def handle_unflatten_enter_def handle_unflatten_exit_def)

text \<open>
  C8, as amended. For a wrapper that has parameters, whose handle has \<^verbatim>\<open>use_orig_params\<close>
  false, in any state, entering and leaving the scope with an empty block raises nothing and
  leaves the slot \<open>flat_param\<close> registered, holding the aggregated buffer: the slot is
  unchanged when it was so registered before entry (and then, for a wrapper with a handle of
  its own, so is the whole registry). \<^verbatim>\<open>flat_param\<close> returns the same aggregated buffer
  before and after.
\<close>

theorem unflatten_as_params_empty_block_registers:
  assumes found: "handle s = Inr (Handle h)" and flag: "\<not> h_use_orig_params h"
  shows "\<exists>s'. unflatten_as_params (\<lambda>x. (None, x)) s = (None, s') \<and>
              parameters s' ''flat_param'' = Some (FlatParam (h_flat_param h)) \<and>
              (parameters s ''flat_param'' = Some (FlatParam (h_flat_param h)) \<longrightarrow>
                 parameters s' ''flat_param'' = parameters s ''flat_param'') \<and>
              (\<forall>h0. flat_param_handle s = Some h0 \<and>
                    parameters s ''flat_param'' = Some (FlatParam (h_flat_param h)) \<longrightarrow>
                 parameters s' = parameters s) \<and>
              flat_param s' = flat_param s \<and>
              flat_param s = Inr (FlatParam (h_flat_param h))"
proof -
  let ?e = "store_handle (handle_unflatten_enter h)
              (s\<lparr>parameters := (parameters s)(''flat_param'' := None)\<rparr>)"
  let ?h1 = "handle_unflatten_exit (handle_unflatten_enter h)"
  let ?l = "store_handle ?h1 ?e"
  let ?s' = "?l\<lparr>parameters := (parameters ?l)(''flat_param'' \<mapsto> FlatParam (h_flat_param h))\<rparr>"
  have "handle (s\<lparr>parameters := (parameters s)(''flat_param'' := None)\<rparr>) = Inr (Handle h)"
    using found by (simp only: handle_slot_update)
  then have e: "handle ?e = Inr (Handle (handle_unflatten_enter h))"
    by (rule found_store_handle)
  have flag': "\<not> h_use_orig_params (handle_unflatten_enter h)"
    using flag by simp
  have run: "unflatten_as_params (\<lambda>x. (None, x)) s = (None, ?s')"
    by (simp add: found_unflatten_as_params [OF found] found_unflatten_exit [OF e flag'])
  have "handle ?l = Inr (Handle ?h1)" using e by (rule found_store_handle)
  then have "handle ?s' = Inr (Handle ?h1)" by (simp only: handle_slot_update)
  then have fp': "flat_param ?s' = Inr (FlatParam (h_flat_param h))"
    by (simp add: found_flat_param)
  have whole: "parameters ?s' = parameters s"
    if own: "flat_param_handle s = Some h0"
      and reg: "parameters s ''flat_param'' = Some (FlatParam (h_flat_param h))" for h0
  proof -
    from reg have "(parameters s)(''flat_param'' \<mapsto> FlatParam (h_flat_param h)) = parameters s"
      by (rule map_upd_triv)
    with own show ?thesis by (simp add: store_handle_def)
  qed
  have slot: "parameters ?s' ''flat_param'' = Some (FlatParam (h_flat_param h))"
    by simp
  then have keep: "parameters s ''flat_param'' = Some (FlatParam (h_flat_param h)) \<longrightarrow>
      parameters ?s' ''flat_param'' = parameters s ''flat_param''"
    by simp
  have fp: "flat_param s = Inr (FlatParam (h_flat_param h))"
    by (rule found_flat_param [OF found])
  with fp' have same: "flat_param ?s' = flat_param s" by simp
  from run slot keep whole same fp show ?thesis by blast
qed

theorem unflatten_as_params_empty_block_registers_witness:
  "\<exists>w s'. FlattenParamsWrapper_init \<lparr>m_id = 0, m_type = ''Linear'', m_attrs = Map.empty\<rparr>
             [1, 2] ''cpu'' 0 False = Inr w \<and>
          unflatten_as_params (\<lambda>x. (None, x)) w = (None, s') \<and>
          parameters s' = parameters w \<and>
          flat_param s' = flat_param w \<and>
          flat_param w = Inr (FlatParam (FlatParameter [1, 2]))"
proof -
  have "\<exists>w. FlattenParamsWrapper_init \<lparr>m_id = 0, m_type = ''Linear'', m_attrs = Map.empty\<rparr>
             [1, 2] ''cpu'' 0 False = Inr w"
    by (simp add: FlattenParamsWrapper_init_eq)
  then obtain w where init:
    "FlattenParamsWrapper_init \<lparr>m_id = 0, m_type = ''Linear'', m_attrs = Map.empty\<rparr>
       [1, 2] ''cpu'' 0 False = Inr w" ..
  then obtain h where own: "flat_param_handle w = Some h" and flag: "\<not> h_use_orig_params h"
    and fp: "h_flat_param h = FlatParameter [1, 2]"
    and reg: "parameters w ''flat_param'' = Some (FlatParam (FlatParameter [1, 2]))"
    by (auto simp: FlattenParamsWrapper_init_eq FlatParamHandle_init_def)
  have found: "handle w = Inr (Handle h)" by (rule own_handle [OF own])
  from unflatten_as_params_empty_block_registers [OF found flag]
  obtain s' where run: "unflatten_as_params (\<lambda>x. (None, x)) w = (None, s')"
    and whole: "\<forall>h0. flat_param_handle w = Some h0 \<and>
                  parameters w ''flat_param'' = Some (FlatParam (h_flat_param h)) \<longrightarrow>
                parameters s' = parameters w"
    and same: "flat_param s' = flat_param w"
    and buf: "flat_param w = Inr (FlatParam (h_flat_param h))"
    by blast
  from whole own reg fp have "parameters s' = parameters w" by simp
  with init run same buf fp show ?thesis by auto
qed

text \<open>
  The claim as first stated has the registration state unchanged by an empty scope. A wrapper
  built from an empty list with \<^verbatim>\<open>use_orig_params=False\<close> around a child that is itself a
  wrapper managing the parameter \<open>5\<close> has parameters, by the child's handle, and no slot
  registered; the empty scope raises nothing and leaves the child's buffer registered in the
  slot \<open>flat_param\<close> of the outer wrapper.
\<close>

theorem unflatten_as_params_empty_block_changes_registry_counterexample:
  "(let h = FlatParamHandle_init [5] \<lparr>m_id = 0, m_type = ''Linear'', m_attrs = Map.empty\<rparr>
              ''cpu'' 0 False;
        inner = \<lparr>m_id = 1, m_type = ''FlattenParamsWrapper'',
                 m_attrs = [''_flat_param_handle'' \<mapsto> Handle h,
                            ''_use_orig_params'' \<mapsto> Bool False]\<rparr>
    in case FlattenParamsWrapper_init inner [] ''cpu'' 0 False of
         Inl e \<Rightarrow> False
       | Inr w \<Rightarrow>
           has_params w \<and>
           getattr_self w ''_use_orig_params'' = Inr (Bool False) \<and>
           parameters w ''flat_param'' = None \<and>
           fst (unflatten_as_params (\<lambda>x. (None, x)) w) = None \<and>
           parameters (snd (unflatten_as_params (\<lambda>x. (None, x)) w)) ''flat_param'' =
             Some (FlatParam (FlatParameter [5])))"
  by (simp add: FlattenParamsWrapper_init_eq Let_def has_params_def flat_param_def
      flat_param_getter_def handle_def hasattr_self_def getattr_self_def instance_dict_def
      getattr_fallback_def nn_Module_getattr_def getattr_module_def module_property_def
      FPW_MODULE_def FlatParamHandle_init_def unflatten_as_params_def deregister_flat_param_eq
      handle_call_def store_handle_def unflatten_exit_def unflatten_finally_def
      register_flat_param_def handle_unflatten_enter_def handle_unflatten_exit_def)

text \<open>
  C4, as amended. Construction with \<^verbatim>\<open>use_orig_params=True\<close> leaves the registry empty. For
  a wrapper that owns its handle with the flag true, in any state: leaving the scope changes
  nothing but the handle, which retracts the views, so the slot is never registered by this
  class; entering the scope changes the handle, which installs the views, and de-registers
  without a test of the flag: it removes the slot \<open>flat_param\<close> when the slot is registered,
  and changes nothing of the registry when it is not.
\<close>

theorem use_orig_params_never_registers:
  "(\<forall>module params device config w.
      FlattenParamsWrapper_init module params device config True = Inr w \<longrightarrow>
        parameters w = Map.empty) \<and>
   (flat_param_handle s = Some h \<and> h_use_orig_params h \<longrightarrow>
      unflatten_enter s =
        Inr (s\<lparr>parameters := (parameters s)(''flat_param'' := None),
               flat_param_handle := Some (handle_unflatten_enter h)\<rparr>) \<and>
      (parameters s ''flat_param'' = None \<longrightarrow>
         unflatten_enter s = Inr (s\<lparr>flat_param_handle := Some (handle_unflatten_enter h)\<rparr>)) \<and>
      unflatten_exit raised s =
        (raised, s\<lparr>flat_param_handle := Some (handle_unflatten_exit h)\<rparr>))"
proof -
  have init: "parameters w = Map.empty"
    if "FlattenParamsWrapper_init module params device config True = Inr w"
    for module params device config w
    using that by (auto simp: FlattenParamsWrapper_init_eq)
  have scope: "unflatten_enter s =
        Inr (s\<lparr>parameters := (parameters s)(''flat_param'' := None),
               flat_param_handle := Some (handle_unflatten_enter h)\<rparr>) \<and>
      (parameters s ''flat_param'' = None \<longrightarrow>
         unflatten_enter s = Inr (s\<lparr>flat_param_handle := Some (handle_unflatten_enter h)\<rparr>)) \<and>
      unflatten_exit raised s =
        (raised, s\<lparr>flat_param_handle := Some (handle_unflatten_exit h)\<rparr>)"
    if own: "flat_param_handle s = Some h" and flag: "h_use_orig_params h"
  proof -
    have "(parameters s)(''flat_param'' := None) = parameters s"
      if "parameters s ''flat_param'' = None"
      using that by (rule fun_upd_idem)
    with flag show ?thesis
      by (simp add: own_unflatten_enter [OF own] own_unflatten_exit [OF own])
  qed
  from init scope show ?thesis by blast
qed

theorem use_orig_params_never_registers_witness:
  "\<exists>w h. FlattenParamsWrapper_init \<lparr>m_id = 0, m_type = ''Linear'', m_attrs = Map.empty\<rparr>
            [1, 2] ''cpu'' 0 True = Inr w \<and>
          parameters w = Map.empty \<and> flat_param_handle w = Some h \<and> h_use_orig_params h \<and>
          unflatten_enter w = Inr (w\<lparr>flat_param_handle := Some (handle_unflatten_enter h)\<rparr>) \<and>
          unflatten_exit (Some (Raised ''boom''))
              (w\<lparr>flat_param_handle := Some (handle_unflatten_enter h)\<rparr>) =
            (Some (Raised ''boom''),
             w\<lparr>flat_param_handle := Some (handle_unflatten_exit (handle_unflatten_enter h))\<rparr>)"
proof -
  have "\<exists>w. FlattenParamsWrapper_init \<lparr>m_id = 0, m_type = ''Linear'', m_attrs = Map.empty\<rparr>
             [1, 2] ''cpu'' 0 True = Inr w"
    by (simp add: FlattenParamsWrapper_init_eq)
  then obtain w where init:
    "FlattenParamsWrapper_init \<lparr>m_id = 0, m_type = ''Linear'', m_attrs = Map.empty\<rparr>
       [1, 2] ''cpu'' 0 True = Inr w" ..
  then obtain h where own: "flat_param_handle w = Some h" and flag: "h_use_orig_params h"
    by (auto simp: FlattenParamsWrapper_init_eq FlatParamHandle_init_def)
  let ?e = "w\<lparr>flat_param_handle := Some (handle_unflatten_enter h)\<rparr>"
  from use_orig_params_never_registers [of w h "Some (Raised ''boom'')"] init
  have empty: "parameters w = Map.empty" by blast
  then have none: "parameters w ''flat_param'' = None" by simp
  from use_orig_params_never_registers [of w h "Some (Raised ''boom'')"] own flag none
  have enter: "unflatten_enter w = Inr ?e" by blast
  have own': "flat_param_handle ?e = Some (handle_unflatten_enter h) \<and>
              h_use_orig_params (handle_unflatten_enter h)"
    using flag by (simp add: handle_unflatten_enter_def)
  from use_orig_params_never_registers
         [of ?e "handle_unflatten_enter h" "Some (Raised ''boom'')"] own'
  have "unflatten_exit (Some (Raised ''boom'')) ?e =
          (Some (Raised ''boom''),
           ?e\<lparr>flat_param_handle := Some (handle_unflatten_exit (handle_unflatten_enter h))\<rparr>)"
    by blast
  then have exit: "unflatten_exit (Some (Raised ''boom'')) ?e =
          (Some (Raised ''boom''),
           w\<lparr>flat_param_handle := Some (handle_unflatten_exit (handle_unflatten_enter h))\<rparr>)"
    by simp
  from init empty own flag enter exit show ?thesis by blast
qed

text \<open>
  The claim as first stated has entry never de-register. A wrapper constructed over the
  parameters \<open>1\<close> and \<open>2\<close> with \<^verbatim>\<open>use_orig_params=True\<close>, on which \<^verbatim>\<open>_register_flat_param\<close> has
  then been called, has the slot registered; entering the scope removes it, and it is still
  missing after the scope.
\<close>

theorem use_orig_params_entry_deregisters_counterexample:
  "(case FlattenParamsWrapper_init \<lparr>m_id = 0, m_type = ''Linear'', m_attrs = Map.empty\<rparr>
           [1, 2] ''cpu'' 0 True of
      Inl e \<Rightarrow> False
    | Inr w \<Rightarrow>
        (case register_flat_param w of
           Inl e \<Rightarrow> False
         | Inr s \<Rightarrow>
             parameters s ''flat_param'' = Some (FlatParam (FlatParameter [1, 2])) \<and>
             (case unflatten_enter s of
                Inl e \<Rightarrow> False
              | Inr entered \<Rightarrow> parameters entered ''flat_param'' = None) \<and>
             fst (unflatten_as_params (\<lambda>x. (None, x)) s) = None \<and>
             parameters (snd (unflatten_as_params (\<lambda>x. (None, x)) s)) ''flat_param'' = None))"
  by (simp add: FlattenParamsWrapper_init_eq own_register_flat_param own_unflatten_enter
      own_unflatten_as_params own_unflatten_exit FlatParamHandle_init_def
      handle_unflatten_enter_def handle_unflatten_exit_def)

text \<open>
  C10, as amended. \<^verbatim>\<open>_deregister_flat_param\<close> never fails: it returns the wrapper with the
  entry \<open>flat_param\<close> removed from the registry and nothing else changed, doing it again
  changes nothing, and it changes nothing at all when \<open>flat_param\<close> is not registered.
  Entering the scope therefore never fails in de-registering: it is entering the handle's
  context on the de-registered wrapper, and when it fails it is with the \<^verbatim>\<open>AttributeError\<close>
  of that step, never a \<^verbatim>\<open>KeyError\<close>. It succeeds whenever the handle attribute of the
  wrapper is a handle, whatever the registry holds.
\<close>

theorem deregister_flat_param_total_idempotent:
  "deregister_flat_param s = Inr (s\<lparr>parameters := (parameters s)(''flat_param'' := None)\<rparr>) \<and>
   deregister_flat_param (s\<lparr>parameters := (parameters s)(''flat_param'' := None)\<rparr>) =
     Inr (s\<lparr>parameters := (parameters s)(''flat_param'' := None)\<rparr>) \<and>
   (parameters s ''flat_param'' = None \<longrightarrow> deregister_flat_param s = Inr s) \<and>
   unflatten_enter s =
     handle_call ''unflatten_as_params'' handle_unflatten_enter
       (s\<lparr>parameters := (parameters s)(''flat_param'' := None)\<rparr>) \<and>
   (\<forall>e. unflatten_enter s = Inl e \<longrightarrow> (\<exists>t n. e = AttributeError t n)) \<and>
   (\<forall>h. handle s = Inr (Handle h) \<longrightarrow>
      unflatten_enter s =
        Inr (store_handle (handle_unflatten_enter h)
               (s\<lparr>parameters := (parameters s)(''flat_param'' := None)\<rparr>)))"
proof -
  have again: "deregister_flat_param (s\<lparr>parameters := (parameters s)(''flat_param'' := None)\<rparr>) =
     Inr (s\<lparr>parameters := (parameters s)(''flat_param'' := None)\<rparr>)"
    by (simp add: deregister_flat_param_eq)
  have noop: "deregister_flat_param s = Inr s" if "parameters s ''flat_param'' = None"
  proof -
    from that have "(parameters s)(''flat_param'' := None) = parameters s"
      by (rule fun_upd_idem)
    then show ?thesis by (simp add: deregister_flat_param_eq)
  qed
  have err: "\<exists>t n. e = AttributeError t n" if "unflatten_enter s = Inl e" for e
    using that unfolding unflatten_enter_eq by (rule handle_call_error)
  have own: "unflatten_enter s =
        Inr (store_handle (handle_unflatten_enter h)
               (s\<lparr>parameters := (parameters s)(''flat_param'' := None)\<rparr>))"
    if "handle s = Inr (Handle h)" for h
    using that by (rule found_unflatten_enter)
  from again noop err own deregister_flat_param_eq [of s] unflatten_enter_eq [of s]
  show ?thesis by blast
qed

theorem deregister_flat_param_total_idempotent_witness:
  "\<exists>w s. FlattenParamsWrapper_init \<lparr>m_id = 0, m_type = ''Linear'', m_attrs = Map.empty\<rparr>
          [1, 2] ''cpu'' 0 False = Inr w \<and>
        parameters w ''flat_param'' \<noteq> None \<and>
        deregister_flat_param w = Inr s \<and>
        parameters s ''flat_param'' = None \<and>
        deregister_flat_param s = Inr s \<and>
        (\<exists>entered. unflatten_enter s = Inr entered)"
proof -
  have "\<exists>w. FlattenParamsWrapper_init \<lparr>m_id = 0, m_type = ''Linear'', m_attrs = Map.empty\<rparr>
             [1, 2] ''cpu'' 0 False = Inr w"
    by (simp add: FlattenParamsWrapper_init_eq)
  then obtain w where init:
    "FlattenParamsWrapper_init \<lparr>m_id = 0, m_type = ''Linear'', m_attrs = Map.empty\<rparr>
       [1, 2] ''cpu'' 0 False = Inr w" ..
  then obtain h where own: "flat_param_handle w = Some h"
    and reg: "parameters w ''flat_param'' \<noteq> None"
    by (auto simp: FlattenParamsWrapper_init_eq)
  let ?s = "w\<lparr>parameters := (parameters w)(''flat_param'' := None)\<rparr>"
  from deregister_flat_param_total_idempotent [of w]
  have first: "deregister_flat_param w = Inr ?s" and again: "deregister_flat_param ?s = Inr ?s"
    by blast+
  have "flat_param_handle ?s = Some h" using own by simp
  then have "handle ?s = Inr (Handle h)" by (rule own_handle)
  with deregister_flat_param_total_idempotent [of ?s]
  have "\<exists>entered. unflatten_enter ?s = Inr entered" by blast
  with init reg first again show ?thesis by (intro exI [of _ w] exI [of _ ?s]) simp
qed

text \<open>
  The claim as first stated has entry never fail when \<open>flat_param\<close> is not registered. A
  wrapper built from an empty list around a child whose attribute \<^verbatim>\<open>_flat_param_handle\<close> is
  some object that is no handle, and whose attribute \<^verbatim>\<open>flat_param\<close> is a buffer, reads the
  child's buffer as its \<^verbatim>\<open>flat_param\<close>; nothing is registered; entering the handle's context
  raises \<^verbatim>\<open>AttributeError\<close>, and so does the \<^verbatim>\<open>finally\<close> clause, whose error is the one the
  scope ends with. The block is never run.
\<close>

theorem unflatten_as_params_entry_fails_counterexample:
  "(case FlattenParamsWrapper_init
           \<lparr>m_id = 0, m_type = ''Linear'',
              m_attrs = [''_flat_param_handle'' \<mapsto> Obj 7,
                         ''flat_param'' \<mapsto> FlatParam (FlatParameter [5])]\<rparr>
           [] ''cpu'' 0 False of
      Inl e \<Rightarrow> False
    | Inr w \<Rightarrow>
        parameters w ''flat_param'' = None \<and>
        has_params w \<and>
        flat_param w = Inr (FlatParam (FlatParameter [5])) \<and>
        unflatten_enter w = Inl (AttributeError ''object'' ''unflatten_as_params'') \<and>
        fst (unflatten_as_params (\<lambda>x. (None, x)) w) =
          Some (AttributeError ''object'' ''_use_orig_params''))"
  by (simp add: FlattenParamsWrapper_init_eq has_params_def flat_param_def flat_param_getter_def
      handle_def hasattr_self_def getattr_self_def instance_dict_def getattr_fallback_def
      nn_Module_getattr_def getattr_module_def module_property_def FPW_MODULE_def
      unflatten_enter_eq handle_call_def unflatten_as_params_def deregister_flat_param_eq
      unflatten_finally_def)

section \<open>Forward\<close>

text \<open>
  C5. When the wrapper has parameters, its handle attribute is a handle \<open>h\<close> and
  \<^verbatim>\<open>_use_orig_params\<close> is false, \<^verbatim>\<open>forward\<close> calls \<^verbatim>\<open>_use_unsharded_views(as_params=False)\<close>
  on the handle once (the record of calls grows by exactly that one) and then is the call of
  the wrapped module, in the state so reached, with the same positional and keyword arguments:
  the result and the state after are those of that call. When the wrapper has no parameters,
  \<^verbatim>\<open>forward\<close> is the call of the wrapped module in the unchanged state.
\<close>

theorem forward_materializes_once_then_delegates:
  "(has_params s \<and> handle s = Inr (Handle h) \<and>
      getattr_self s ''_use_orig_params'' = Inr (Bool False) \<longrightarrow>
        forward module_call s inputs kwinputs =
          module_call (store_handle (use_unsharded_views False h) s) inputs kwinputs \<and>
        h_use_unsharded_views_calls (use_unsharded_views False h) =
          h_use_unsharded_views_calls h @ [False]) \<and>
   (\<not> has_params s \<longrightarrow> forward module_call s inputs kwinputs = module_call s inputs kwinputs)"
  by (auto simp: forward_def flat_param_def flat_param_getter_def handle_def has_params_def
      handle_call_def use_unsharded_views_def)

theorem forward_materializes_once_then_delegates_witness:
  "\<exists>w h w0.
     FlattenParamsWrapper_init \<lparr>m_id = 0, m_type = ''Linear'', m_attrs = Map.empty\<rparr>
       [1, 2] ''cpu'' 0 False = Inr w \<and>
     has_params w \<and> handle w = Inr (Handle h) \<and>
     forward (\<lambda>x i k. (Inr (Obj 9), x)) w [Obj 3] [(''scale'', Obj 4)] =
       (Inr (Obj 9), w\<lparr>flat_param_handle := Some (use_unsharded_views False h)\<rparr>) \<and>
     h_use_unsharded_views_calls (use_unsharded_views False h) =
       h_use_unsharded_views_calls h @ [False] \<and>
     FlattenParamsWrapper_init \<lparr>m_id = 0, m_type = ''Linear'', m_attrs = Map.empty\<rparr>
       [] ''cpu'' 0 False = Inr w0 \<and>
     \<not> has_params w0 \<and>
     forward (\<lambda>x i k. (Inr (Obj 9), x)) w0 [Obj 3] [(''scale'', Obj 4)] = (Inr (Obj 9), w0)"
proof -
  have "\<exists>w. FlattenParamsWrapper_init \<lparr>m_id = 0, m_type = ''Linear'', m_attrs = Map.empty\<rparr>
             [1, 2] ''cpu'' 0 False = Inr w"
    by (simp add: FlattenParamsWrapper_init_eq)
  then obtain w where init:
    "FlattenParamsWrapper_init \<lparr>m_id = 0, m_type = ''Linear'', m_attrs = Map.empty\<rparr>
       [1, 2] ''cpu'' 0 False = Inr w" ..
  have "\<exists>w. FlattenParamsWrapper_init \<lparr>m_id = 0, m_type = ''Linear'', m_attrs = Map.empty\<rparr>
             [] ''cpu'' 0 False = Inr w"
    by (simp add: FlattenParamsWrapper_init_eq)
  then obtain w0 where init0:
    "FlattenParamsWrapper_init \<lparr>m_id = 0, m_type = ''Linear'', m_attrs = Map.empty\<rparr>
       [] ''cpu'' 0 False = Inr w0" ..
  from init obtain h where h: "flat_param_handle w = Some h" "use_orig_params w = Some False"
    by (auto simp: FlattenParamsWrapper_init_eq)
  then have own: "has_params w \<and> handle w = Inr (Handle h) \<and>
             getattr_self w ''_use_orig_params'' = Inr (Bool False)"
    by (simp add: own_has_params own_handle own_getattr_use_orig_params)
  from init0 have none: "\<not> has_params w0"
    by (auto simp: FlattenParamsWrapper_init_eq has_params_def hasattr_self_def getattr_self_def
        instance_dict_def getattr_fallback_def nn_Module_getattr_def getattr_module_def
        module_property_def FPW_MODULE_def)
  from forward_materializes_once_then_delegates
         [of w h "\<lambda>x i k. (Inr (Obj 9), x)" "[Obj 3]" "[(''scale'', Obj 4)]"] own h
  have a: "forward (\<lambda>x i k. (Inr (Obj 9), x)) w [Obj 3] [(''scale'', Obj 4)] =
             (Inr (Obj 9), w\<lparr>flat_param_handle := Some (use_unsharded_views False h)\<rparr>) \<and>
           h_use_unsharded_views_calls (use_unsharded_views False h) =
             h_use_unsharded_views_calls h @ [False]"
    by (simp add: store_handle_def)
  from forward_materializes_once_then_delegates
         [of w0 h "\<lambda>x i k. (Inr (Obj 9), x)" "[Obj 3]" "[(''scale'', Obj 4)]"] none
  have b: "forward (\<lambda>x i k. (Inr (Obj 9), x)) w0 [Obj 3] [(''scale'', Obj 4)] = (Inr (Obj 9), w0)"
    by simp
  from init init0 own none a b show ?thesis by blast
qed

section \<open>Attribute fallback\<close>

text \<open>
  C9. For a name that the Wrapper's own fields do not satisfy (\<^verbatim>\<open>nn.Module\<close>'s lookup raises
  \<^verbatim>\<open>AttributeError\<close>), the lookup is the wrapped child's: the child's value when the child has
  the member, and otherwise the child's own \<^verbatim>\<open>AttributeError\<close>, naming the child's type.
\<close>

theorem getattr_falls_back_to_wrapped_module:
  assumes "nn_Module_getattr self name = Inl (AttributeError t n)"
  shows "getattr_fallback self name = getattr_module (module_property self) name \<and>
         (\<forall>v. m_attrs (fpw_module self) name = Some v \<longrightarrow> getattr_fallback self name = Inr v) \<and>
         (m_attrs (fpw_module self) name = None \<longrightarrow>
            getattr_fallback self name = Inl (AttributeError (m_type (fpw_module self)) name))"
  using assms by (simp add: getattr_fallback_def getattr_module_def module_property_def)

theorem getattr_falls_back_to_wrapped_module_witness:
  "\<exists>w. FlattenParamsWrapper_init
          \<lparr>m_id = 0, m_type = ''Linear'', m_attrs = [''weight'' \<mapsto> Obj 1]\<rparr>
          [] ''cpu'' 0 False = Inr w \<and>
        nn_Module_getattr w ''weight'' = Inl (AttributeError ''FlattenParamsWrapper'' ''weight'') \<and>
        getattr_fallback w ''weight'' = Inr (Obj 1) \<and>
        nn_Module_getattr w ''bias'' = Inl (AttributeError ''FlattenParamsWrapper'' ''bias'') \<and>
        getattr_fallback w ''bias'' = Inl (AttributeError ''Linear'' ''bias'')"
proof -
  have "\<exists>w. FlattenParamsWrapper_init
          \<lparr>m_id = 0, m_type = ''Linear'', m_attrs = [''weight'' \<mapsto> Obj 1]\<rparr>
          [] ''cpu'' 0 False = Inr w"
    by (simp add: FlattenParamsWrapper_init_eq)
  then obtain w where init: "FlattenParamsWrapper_init
          \<lparr>m_id = 0, m_type = ''Linear'', m_attrs = [''weight'' \<mapsto> Obj 1]\<rparr>
          [] ''cpu'' 0 False = Inr w" ..
  then have child: "fpw_module w = \<lparr>m_id = 0, m_type = ''Linear'', m_attrs = [''weight'' \<mapsto> Obj 1]\<rparr>"
    and regs: "parameters w = Map.empty"
    by (auto simp: FlattenParamsWrapper_init_eq)
  have own: "nn_Module_getattr w ''weight'' = Inl (AttributeError ''FlattenParamsWrapper'' ''weight'')"
    "nn_Module_getattr w ''bias'' = Inl (AttributeError ''FlattenParamsWrapper'' ''bias'')"
    using regs by (simp_all add: nn_Module_getattr_def FPW_MODULE_def)
  have has: "m_attrs (fpw_module w) ''weight'' = Some (Obj 1)"
    and lacks: "m_attrs (fpw_module w) ''bias'' = None"
    and type: "m_type (fpw_module w) = ''Linear''"
    using child by simp_all
  from getattr_falls_back_to_wrapped_module [OF own(1)] has
  have a: "getattr_fallback w ''weight'' = Inr (Obj 1)" by blast
  from getattr_falls_back_to_wrapped_module [OF own(2)] lacks
  have "getattr_fallback w ''bias'' = Inl (AttributeError (m_type (fpw_module w)) ''bias'')"
    by blast
  with type have b: "getattr_fallback w ''bias'' = Inl (AttributeError ''Linear'' ''bias'')"
    by simp
  from init own a b show ?thesis by blast
qed

section \<open>A wrapper without parameters around a child that has a handle\<close>

text \<open>
  C6. The claim is that a wrapper constructed with an empty parameter list has no parameters,
  returns \<^verbatim>\<open>None\<close> as its flat parameter and fails to give a handle. The docstrings say the
  same (\<^verbatim>\<open>has_params\<close>: ``Returns whether this wrapper manages any parameters'').
  The code tests \<^verbatim>\<open>hasattr(self, "_flat_param_handle")\<close>, and that lookup, failing on the
  wrapper, falls back to the wrapped module through \<^verbatim>\<open>__getattr__\<close>. Wrapped around a child
  that has an attribute of that name (a \<^verbatim>\<open>FlattenParamsWrapper\<close> that manages the parameter
  \<open>5\<close>, say), the wrapper built from an empty list answers with the child's handle.
\<close>

theorem has_params_answers_for_the_child:
  "(let h = FlatParamHandle_init [5] \<lparr>m_id = 0, m_type = ''Linear'', m_attrs = Map.empty\<rparr>
              ''cpu'' 0 False;
        inner = \<lparr>m_id = 1, m_type = ''FlattenParamsWrapper'',
                 m_attrs = [''_flat_param_handle'' \<mapsto> Handle h]\<rparr>
    in case FlattenParamsWrapper_init inner [] ''cpu'' 0 False of
         Inl e \<Rightarrow> False
       | Inr w \<Rightarrow>
           flat_param_handle w = None \<and> has_params w \<and>
           flat_param w = Inr (FlatParam (FlatParameter [5])) \<and>
           handle w = Inr (Handle h))"
  by (simp add: FlattenParamsWrapper_init_eq Let_def has_params_def flat_param_def
      flat_param_getter_def handle_def hasattr_self_def getattr_self_def instance_dict_def
      getattr_fallback_def
      nn_Module_getattr_def getattr_module_def module_property_def FPW_MODULE_def
      FlatParamHandle_init_def)

end
